theory Spec2Isabelle
  imports Main "HOL-Library.Sublist"
begin

section \<open>JavaScript values, errors and strings\<close>

text \<open>
  The agent is written in JavaScript (\<^verbatim>\<open>src/main.js\<close>, \<^verbatim>\<open>src/tools.js\<close>). Tool
  arguments, tool results and stored facts are untyped JavaScript values, so the model
  carries them as \<open>jsval\<close>. The code never computes with numbers taken from such values;
  a number is kept as its canonical decimal rendering.
\<close>

datatype jsval =
    JUndefined
  | JNull
  | JBool bool
  | JNum string
  | JStr string
  | JArr "jsval list"
  | JObj "(string \<times> jsval) list"

text \<open>
  A thrown exception, with the text of its \<^verbatim>\<open>message\<close> property. \<open>SystemError\<close> is
  an error raised by the operating system through \<^verbatim>\<open>fs\<close>; \<open>JsError\<close> is a plain
  \<^verbatim>\<open>Error\<close> (for example a failed request to the model backend).
\<close>

datatype error =
    TypeError string
  | ReferenceError string
  | SyntaxError string
  | SystemError string
  | JsError string

fun e_message :: "error \<Rightarrow> string" where
  "e_message (TypeError m) = m"
| "e_message (ReferenceError m) = m"
| "e_message (SyntaxError m) = m"
| "e_message (SystemError m) = m"
| "e_message (JsError m) = m"

text \<open>\<^verbatim>\<open>Array.prototype.join\<close> on strings.\<close>

fun join :: "string \<Rightarrow> string list \<Rightarrow> string" where
  "join sep [] = []"
| "join sep [x] = x"
| "join sep (x # y # ys) = x @ sep @ join sep (y # ys)"

text \<open>The decimal rendering of a non-negative integer (a size, an index, a line number).\<close>

fun string_of_nat :: "nat \<Rightarrow> string" where
  "string_of_nat n =
     (if n < 10 then [''0123456789'' ! n]
      else string_of_nat (n div 10) @ [''0123456789'' ! (n mod 10)])"

declare string_of_nat.simps [simp del]

text \<open>
  \<^verbatim>\<open>String(v)\<close>, which a template literal \<^verbatim>\<open>`${v}`\<close> applies: a string is itself, a
  plain object is \<^verbatim>\<open>[object Object]\<close>, an array is its elements joined by commas with
  \<^verbatim>\<open>null\<close> and \<^verbatim>\<open>undefined\<close> elements rendered empty.
\<close>

fun js_String :: "jsval \<Rightarrow> string" where
  "js_String JUndefined = ''undefined''"
| "js_String JNull = ''null''"
| "js_String (JBool b) = (if b then ''true'' else ''false'')"
| "js_String (JNum s) = s"
| "js_String (JStr s) = s"
| "js_String (JArr xs) =
     join '','' (map (\<lambda>x. if x = JUndefined \<or> x = JNull then [] else js_String x) xs)"
| "js_String (JObj kvs) = ''[object Object]''"

text \<open>Truthiness, as \<^verbatim>\<open>if (v)\<close> tests it.\<close>

fun truthy :: "jsval \<Rightarrow> bool" where
  "truthy JUndefined = False"
| "truthy JNull = False"
| "truthy (JBool b) = b"
| "truthy (JNum s) = (s \<noteq> ''0'' \<and> s \<noteq> ''-0'' \<and> s \<noteq> ''NaN'')"
| "truthy (JStr s) = (s \<noteq> [])"
| "truthy (JArr xs) = True"
| "truthy (JObj kvs) = True"

text \<open>
  How Node names a value of the wrong type in the message of \<^verbatim>\<open>ERR_INVALID_ARG_TYPE\<close>.
\<close>

fun received :: "jsval \<Rightarrow> string" where
  "received JUndefined = ''undefined''"
| "received JNull = ''null''"
| "received (JBool b) = ''type boolean ('' @ js_String (JBool b) @ '')''"
| "received (JNum s) = ''type number ('' @ s @ '')''"
| "received (JStr s) = ''type string''"
| "received (JArr xs) = ''an instance of Array''"
| "received (JObj kvs) = ''an instance of Object''"

text \<open>
  \<^verbatim>\<open>path.isAbsolute\<close> on a POSIX host: Node validates that the argument is a string
  and throws a \<^verbatim>\<open>TypeError\<close> otherwise; a string is absolute when it starts with a slash.
\<close>

definition path_isAbsolute :: "jsval \<Rightarrow> error + bool" where
  "path_isAbsolute p =
     (case p of
        JStr s \<Rightarrow> Inr (s \<noteq> [] \<and> hd s = CHR ''/'')
      | _ \<Rightarrow> Inl (TypeError (''The '' @ [CHR 0x22] @ ''path'' @ [CHR 0x22] @
                 '' argument must be of type string. Received '' @ received p)))"

section \<open>The world: file system, memory store, clock, error console\<close>

text \<open>
  An entry of the file system as \<^verbatim>\<open>fs.lstatSync\<close> classifies it. A regular file
  carries what \<^verbatim>\<open>fs.readFileSync\<close> yields on it, its text or the error of the operating
  system (for example a missing read permission); a directory carries what
  \<^verbatim>\<open>fs.readdirSync\<close> yields. \<open>OtherNode\<close> is an entry that exists and is neither.
\<close>

datatype fsnode =
    FileNode "error + string"
  | DirNode "error + string list"
  | OtherNode

text \<open>
  \<open>memoryStore\<close> is the module-level \<^verbatim>\<open>Map\<close> of \<^verbatim>\<open>tools.js\<close>: an association list
  in insertion order with unique keys. \<open>write_error\<close> tells for each path whether the
  operating system refuses to open it for writing. \<open>write_fault\<close> tells for each path
  whether a write that was opened fails on the way (a full disk, an input/output error):
  \<open>Some (n, e)\<close> says that the first \<open>n\<close> characters of the data reach the file before
  the error \<open>e\<close> is thrown. \<open>clock\<close> and \<open>ticks\<close> give the text that the
  next \<^verbatim>\<open>new Date().toISOString()\<close> returns; two readings may give the same text.
  \<open>stderr\<close> holds the lines written by \<^verbatim>\<open>console.error\<close>.
\<close>

record world =
  files :: "string \<Rightarrow> fsnode option"
  write_error :: "string \<Rightarrow> error option"
  write_fault :: "string \<Rightarrow> (nat \<times> error) option"
  memoryStore :: "(string \<times> jsval) list"
  clock :: "nat \<Rightarrow> string"
  ticks :: nat
  stderr :: "string list"

definition console_error :: "string \<Rightarrow> world \<Rightarrow> world" where
  "console_error line w = w\<lparr>stderr := stderr w @ [line]\<rparr>"

definition existsSync :: "string \<Rightarrow> world \<Rightarrow> bool" where
  "existsSync p w = (files w p \<noteq> None)"

definition lstat_isFile :: "string \<Rightarrow> world \<Rightarrow> error + bool" where
  "lstat_isFile p w =
     (case files w p of
        None \<Rightarrow> Inl (SystemError (''ENOENT: no such file or directory, lstat '' @ [CHR 0x27] @ p @ [CHR 0x27]))
      | Some (FileNode _) \<Rightarrow> Inr True
      | Some _ \<Rightarrow> Inr False)"

definition lstat_isDirectory :: "string \<Rightarrow> world \<Rightarrow> error + bool" where
  "lstat_isDirectory p w =
     (case files w p of
        None \<Rightarrow> Inl (SystemError (''ENOENT: no such file or directory, lstat '' @ [CHR 0x27] @ p @ [CHR 0x27]))
      | Some (DirNode _) \<Rightarrow> Inr True
      | Some _ \<Rightarrow> Inr False)"

definition readFileSync :: "string \<Rightarrow> world \<Rightarrow> error + string" where
  "readFileSync p w =
     (case files w p of
        None \<Rightarrow> Inl (SystemError (''ENOENT: no such file or directory, open '' @ [CHR 0x27] @ p @ [CHR 0x27]))
      | Some (FileNode r) \<Rightarrow> r
      | Some (DirNode _) \<Rightarrow> Inl (SystemError ''EISDIR: illegal operation on a directory, read'')
      | Some OtherNode \<Rightarrow> Inl (SystemError (''EINVAL: invalid argument, read'')))"

definition readdirSync :: "string \<Rightarrow> world \<Rightarrow> error + string list" where
  "readdirSync p w =
     (case files w p of
        None \<Rightarrow> Inl (SystemError (''ENOENT: no such file or directory, scandir '' @ [CHR 0x27] @ p @ [CHR 0x27]))
      | Some (DirNode r) \<Rightarrow> r
      | Some _ \<Rightarrow> Inl (SystemError (''ENOTDIR: not a directory, scandir '' @ [CHR 0x27] @ p @ [CHR 0x27])))"

text \<open>
  \<^verbatim>\<open>fs.writeFileSync(p, content, "utf-8")\<close> opens the file for writing, which
  truncates it, and then writes the data. It throws without touching the file system when
  the open is refused or the target is a directory (\<open>write_refused\<close> is that error). It
  throws after the open when the write fails on the way; the path then holds a regular
  file with the part of the data that was written, possibly none. Otherwise the path
  holds a regular file with the data. \<open>write_failure\<close> is the error thrown, if any.
\<close>

definition write_refused :: "string \<Rightarrow> world \<Rightarrow> error option" where
  "write_refused p w =
     (case write_error w p of
        Some e \<Rightarrow> Some e
      | None \<Rightarrow>
          (case files w p of
             Some (DirNode d) \<Rightarrow>
               Some (SystemError (''EISDIR: illegal operation on a directory, open '' @ [CHR 0x27] @ p @ [CHR 0x27]))
           | _ \<Rightarrow> None))"

definition write_failure :: "string \<Rightarrow> world \<Rightarrow> error option" where
  "write_failure p w =
     (case write_refused p w of
        Some e \<Rightarrow> Some e
      | None \<Rightarrow> (case write_fault w p of Some (n, e) \<Rightarrow> Some e | None \<Rightarrow> None))"

definition writeFileSync :: "string \<Rightarrow> string \<Rightarrow> world \<Rightarrow> error option \<times> world" where
  "writeFileSync p content w =
     (case write_refused p w of
        Some e \<Rightarrow> (Some e, w)
      | None \<Rightarrow>
          (case write_fault w p of
             Some (n, e) \<Rightarrow>
               (Some e, w\<lparr>files := (files w)(p \<mapsto> FileNode (Inr (take n content)))\<rparr>)
           | None \<Rightarrow> (None, w\<lparr>files := (files w)(p \<mapsto> FileNode (Inr content))\<rparr>)))"

section \<open>The conversation data model\<close>

text \<open>
  One tool-call request of an assistant message: \<^verbatim>\<open>toolCall.id\<close>,
  \<^verbatim>\<open>toolCall.function.name\<close> and \<^verbatim>\<open>toolCall.function.arguments\<close>. The backend
  delivers the arguments as an object keyed by parameter name; an id the backend leaves
  out reads as \<open>JUndefined\<close>.
\<close>

record tool_call =
  call_id :: jsval
  fn_name :: string
  fn_arguments :: jsval

text \<open>
  A message of the transcript. A field that the object does not have is \<open>None\<close>:
  \<open>tool_calls\<close> is present on assistant messages that request tools, \<open>tool_call_id\<close>
  and \<open>name\<close> on tool-role messages.
\<close>

record message =
  role :: string
  content :: jsval
  tool_calls :: "tool_call list option"
  tool_call_id :: "jsval option"
  name :: "string option"

section \<open>What the program takes from outside the repository\<close>

text \<open>The options object handed to the glob package.\<close>

record glob_options =
  g_cwd :: "jsval option"
  g_absolute :: bool
  g_nodir :: bool
  g_ignore :: "jsval list"

text \<open>
  Everything the code calls and does not define is a parameter: the working directory of
  the process, \<^verbatim>\<open>JSON.parse\<close> and \<^verbatim>\<open>JSON.stringify(v, null, 2)\<close>, \<^verbatim>\<open>globSync\<close> of the
  glob package, regular expressions, the members that every object inherits from
  \<^verbatim>\<open>Object.prototype\<close>, and the model backend \<^verbatim>\<open>ollama.chat\<close>.

  \<open>regex_error pattern\<close> is the error of \<^verbatim>\<open>new RegExp(pattern, "gm")\<close>, if it throws.
  \<open>regex_test pattern lastIndex line\<close> is \<^verbatim>\<open>regex.test(line)\<close> of that global regular
  expression started at \<open>lastIndex\<close>: \<open>Some i\<close> when it matches, leaving \<open>lastIndex = i\<close>,
  and \<open>None\<close> when it does not, which resets \<open>lastIndex\<close> to zero.
  \<open>inherited_call m args\<close> is the outcome of calling the member \<open>m\<close> of
  \<^verbatim>\<open>Object.prototype\<close> as a plain function with \<open>args\<close>, for the members whose
  outcome \<open>call_inherited\<close> below does not write out.
  \<open>ollama_chat\<close> answers a transcript with the assistant message, or fails.
\<close>

record runtime =
  cwd :: string
  JSON_parse :: "string \<Rightarrow> error + jsval"
  JSON_stringify :: "jsval \<Rightarrow> string"
  globSync :: "jsval \<Rightarrow> glob_options \<Rightarrow> (string \<Rightarrow> fsnode option) \<Rightarrow> error + string list"
  regex_error :: "jsval \<Rightarrow> error option"
  regex_test :: "jsval \<Rightarrow> nat \<Rightarrow> string \<Rightarrow> nat option"
  inherited_call :: "string \<Rightarrow> jsval \<Rightarrow> error + jsval"
  ollama_chat :: "message list \<Rightarrow> error + message"

text \<open>
  \<^verbatim>\<open>path.join(process.cwd(), name)\<close> for a plain file name: the working directory is an
  absolute, normalised path, which ends in a slash only when it is the root.
\<close>

definition path_join :: "string \<Rightarrow> string \<Rightarrow> string" where
  "path_join dir nm = (if dir \<noteq> [] \<and> last dir = CHR ''/'' then dir @ nm else dir @ ''/'' @ nm)"

definition quoted :: "string \<Rightarrow> string" where
  "quoted s = [CHR 0x27] @ s @ [CHR 0x27]"

definition newline :: string where
  "newline = [CHR 0x0A]"

section \<open>tools.js: the file tools\<close>

text \<open>
  The names bound at the top level of \<^verbatim>\<open>tools.js\<close> (its three imports, its functions
  and its constants), and the globals of Node that the module uses. The module imports
  \<^verbatim>\<open>globSync\<close> from the glob package and nothing else of it; the package name in
  the import is a string and binds nothing, and Node has no global called \<^verbatim>\<open>glob\<close>.
\<close>

definition tools_module_scope :: "string list" where
  "tools_module_scope =
     [''fs'', ''path'', ''globSync'',
      ''readFileJs'', ''listDirectoryJs'', ''writeFileJs'', ''searchFileContentJs'',
      ''globJs'', ''readManyFilesJs'', ''MEMORY_FILE_PATH'', ''memoryStore'',
      ''loadMemoryFromFile'', ''saveMemoryToFile'', ''saveMemoryJs'', ''retrieveMemoryJs'',
      ''listAllMemoryJs'', ''testFilePath'', ''testSearchFilePath'']"

definition node_globals :: "string list" where
  "node_globals = [''process'', ''console'', ''JSON'', ''Object'', ''Map'', ''Date'', ''RegExp'']"

text \<open>
  Evaluating an identifier inside a function of \<^verbatim>\<open>tools.js\<close>: a name that is neither
  local, nor bound in the module, nor a global throws a \<^verbatim>\<open>ReferenceError\<close>.
\<close>

definition resolve_identifier :: "string \<Rightarrow> error + string" where
  "resolve_identifier ident =
     (if ident \<in> set (tools_module_scope @ node_globals) then Inr ident
      else Inl (ReferenceError (ident @ '' is not defined'')))"

text \<open>\<^verbatim>\<open>readFileJs(absolutePath)\<close>. The three checks stand before the \<^verbatim>\<open>try\<close>.\<close>

definition readFileJs :: "jsval \<Rightarrow> world \<Rightarrow> error + string" where
  "readFileJs absolutePath w =
     (case path_isAbsolute absolutePath of
        Inl e \<Rightarrow> Inl e
      | Inr absolute \<Rightarrow>
          if \<not> absolute then
            Inr (''Error: Path must be absolute. Received: '' @ js_String absolutePath)
          else if \<not> existsSync (js_String absolutePath) w then
            Inr (''Error: File not found at '' @ js_String absolutePath)
          else
            (case lstat_isFile (js_String absolutePath) w of
               Inl e \<Rightarrow> Inl e
             | Inr isFile \<Rightarrow>
                 if \<not> isFile then
                   Inr (''Error: Path is not a file: '' @ js_String absolutePath)
                 else
                   (case readFileSync (js_String absolutePath) w of
                      Inr text \<Rightarrow> Inr text
                    | Inl e \<Rightarrow> Inr (''Error reading file: '' @ e_message e))))"

text \<open>\<^verbatim>\<open>listDirectoryJs(absolutePath)\<close>.\<close>

definition listDirectoryJs :: "jsval \<Rightarrow> world \<Rightarrow> error + string" where
  "listDirectoryJs absolutePath w =
     (case path_isAbsolute absolutePath of
        Inl e \<Rightarrow> Inl e
      | Inr absolute \<Rightarrow>
          if \<not> absolute then
            Inr (''Error: Path must be absolute. Received: '' @ js_String absolutePath)
          else if \<not> existsSync (js_String absolutePath) w then
            Inr (''Error: Directory not found at '' @ js_String absolutePath)
          else
            (case lstat_isDirectory (js_String absolutePath) w of
               Inl e \<Rightarrow> Inl e
             | Inr isDirectory \<Rightarrow>
                 if \<not> isDirectory then
                   Inr (''Error: Path is not a directory: '' @ js_String absolutePath)
                 else
                   (case readdirSync (js_String absolutePath) w of
                      Inr items \<Rightarrow> Inr (join newline items)
                    | Inl e \<Rightarrow> Inr (''Error listing directory: '' @ e_message e))))"

text \<open>
  \<^verbatim>\<open>writeFileJs(absolutePath, content)\<close>. Node refuses data that is not a string with
  a \<^verbatim>\<open>TypeError\<close>, inside the \<^verbatim>\<open>try\<close>.
\<close>

definition writeFileJs :: "jsval \<Rightarrow> jsval \<Rightarrow> world \<Rightarrow> (error + string) \<times> world" where
  "writeFileJs absolutePath data w =
     (case path_isAbsolute absolutePath of
        Inl e \<Rightarrow> (Inl e, w)
      | Inr absolute \<Rightarrow>
          if \<not> absolute then
            (Inr (''Error: Path must be absolute. Received: '' @ js_String absolutePath), w)
          else
            (case data of
               JStr text \<Rightarrow>
                 (case writeFileSync (js_String absolutePath) text w of
                    (None, w') \<Rightarrow> (Inr (''Successfully wrote to file: '' @ js_String absolutePath), w')
                  | (Some e, w') \<Rightarrow> (Inr (''Error writing to file: '' @ e_message e), w'))
             | _ \<Rightarrow>
                 (Inr (''Error writing to file: '' @ ''The '' @ [CHR 0x22] @ ''data'' @ [CHR 0x22] @
                       '' argument must be of type string or an instance of Buffer, TypedArray, or DataView. Received '' @
                       received data), w)))"

text \<open>
  \<^verbatim>\<open>content.split("\n")\<close>: the pieces between the separators; the empty text gives
  one empty piece.
\<close>

fun split_on :: "char \<Rightarrow> string \<Rightarrow> string list" where
  "split_on c [] = [[]]"
| "split_on c (x # xs) =
     (if x = c then [] # split_on c xs
      else (case split_on c xs of
              [] \<Rightarrow> [[x]]
            | piece # pieces \<Rightarrow> (x # piece) # pieces))"

text \<open>
  The inner loop of \<^verbatim>\<open>searchFileContentJs\<close> over the lines of one file. The regular
  expression is global, so \<^verbatim>\<open>test\<close> continues from the \<^verbatim>\<open>lastIndex\<close> that the line
  before left.
\<close>

fun search_lines :: "runtime \<Rightarrow> jsval \<Rightarrow> string \<Rightarrow> string list \<Rightarrow> nat \<Rightarrow> nat \<Rightarrow> string list" where
  "search_lines rt pattern filePath [] lineNumber lastIndex = []"
| "search_lines rt pattern filePath (line # lines) lineNumber lastIndex =
     (case regex_test rt pattern lastIndex line of
        Some i \<Rightarrow>
          (filePath @ '':'' @ string_of_nat lineNumber @ '': '' @ line)
            # search_lines rt pattern filePath lines (Suc lineNumber) i
      | None \<Rightarrow> search_lines rt pattern filePath lines (Suc lineNumber) 0)"

text \<open>One file of the outer loop: a file that cannot be read is skipped.\<close>

definition search_file :: "runtime \<Rightarrow> jsval \<Rightarrow> world \<Rightarrow> string \<Rightarrow> string list" where
  "search_file rt pattern w filePath =
     (case readFileSync filePath w of
        Inl e \<Rightarrow> []
      | Inr text \<Rightarrow> search_lines rt pattern filePath (split_on (CHR 0x0A) text) 1 0)"

text \<open>
  The body of the \<^verbatim>\<open>try\<close> of \<^verbatim>\<open>searchFileContentJs\<close>. Both branches on \<^verbatim>\<open>include\<close>
  evaluate \<^verbatim>\<open>glob.sync(...)\<close>, which first evaluates the identifier \<^verbatim>\<open>glob\<close>; were
  it bound to the glob package, its \<^verbatim>\<open>sync\<close> would be the package's \<^verbatim>\<open>globSync\<close>.
\<close>

definition searchFileContentJs_try ::
    "runtime \<Rightarrow> jsval \<Rightarrow> jsval \<Rightarrow> jsval \<Rightarrow> world \<Rightarrow> error + string" where
  "searchFileContentJs_try rt pattern include searchPath w =
     (let globOptions = \<lparr>g_cwd = Some searchPath, g_absolute = True, g_nodir = True,
                          g_ignore = [JStr ''node_modules/**'', JStr ''.git/**'']\<rparr>
      in case resolve_identifier ''glob'' of
           Inl e \<Rightarrow> Inl e
         | Inr g \<Rightarrow>
             (case globSync rt (if truthy include then include else JStr ''**/*'') globOptions (files w) of
                Inl e \<Rightarrow> Inl e
              | Inr filesToSearch \<Rightarrow>
                  (case regex_error rt pattern of
                     Some e \<Rightarrow> Inl e
                   | None \<Rightarrow>
                       (let results = concat (map (search_file rt pattern w) filesToSearch)
                        in if length results = 0 then
                             Inr (''No matches found for pattern '' @ quoted (js_String pattern) @
                                  '' in '' @ quoted (js_String searchPath) @
                                  (if truthy include
                                   then '' with include '' @ quoted (js_String include)
                                   else []) @ ''.'')
                           else Inr (join newline results)))))"

text \<open>
  \<^verbatim>\<open>searchFileContentJs(pattern, include, searchPath = process.cwd())\<close>: the default
  applies to an argument that is \<^verbatim>\<open>undefined\<close>; the \<^verbatim>\<open>catch\<close> turns every error of the
  body into text.
\<close>

definition searchFileContentJs :: "runtime \<Rightarrow> jsval \<Rightarrow> jsval \<Rightarrow> jsval \<Rightarrow> world \<Rightarrow> string" where
  "searchFileContentJs rt pattern include searchPath w =
     (case searchFileContentJs_try rt pattern include
             (if searchPath = JUndefined then JStr (cwd rt) else searchPath) w of
        Inr text \<Rightarrow> text
      | Inl e \<Rightarrow> ''Error searching file content: '' @ e_message e)"

text \<open>\<^verbatim>\<open>globJs(pattern, searchPath = process.cwd())\<close>, which calls the imported \<^verbatim>\<open>globSync\<close>.\<close>

definition globJs :: "runtime \<Rightarrow> jsval \<Rightarrow> jsval \<Rightarrow> world \<Rightarrow> string" where
  "globJs rt pattern searchPath w =
     (let sp = (if searchPath = JUndefined then JStr (cwd rt) else searchPath);
          globOptions = \<lparr>g_cwd = Some sp, g_absolute = True, g_nodir = True,
                          g_ignore = [JStr ''node_modules/**'', JStr ''.git/**'']\<rparr>
      in case globSync rt pattern globOptions (files w) of
           Inl e \<Rightarrow> ''Error performing glob search: '' @ e_message e
         | Inr found \<Rightarrow>
             if length found = 0 then
               ''No files found matching pattern '' @ quoted (js_String pattern) @
               '' in '' @ quoted (js_String sp) @ ''.''
             else join newline found)"

text \<open>
  Spreading a value into an array literal, \<^verbatim>\<open>[...v]\<close>: an array gives its elements, a
  string its characters, and a value that is not iterable throws a \<^verbatim>\<open>TypeError\<close>
  naming the expression.
\<close>

definition spread :: "string \<Rightarrow> jsval \<Rightarrow> error + jsval list" where
  "spread expr v =
     (case v of
        JArr xs \<Rightarrow> Inr xs
      | JStr s \<Rightarrow> Inr (map (\<lambda>c. JStr [c]) s)
      | _ \<Rightarrow> Inl (TypeError (expr @ '' is not iterable'')))"

text \<open>
  The first loop of \<^verbatim>\<open>readManyFilesJs\<close>: every pattern is expanded with
  \<^verbatim>\<open>glob.sync\<close>, and a file enters \<open>allFilePaths\<close> once.
\<close>

fun collect_files ::
    "runtime \<Rightarrow> glob_options \<Rightarrow> world \<Rightarrow> jsval list \<Rightarrow> string list \<Rightarrow> error + string list" where
  "collect_files rt globOptions w [] allFilePaths = Inr allFilePaths"
| "collect_files rt globOptions w (pattern # patterns) allFilePaths =
     (case resolve_identifier ''glob'' of
        Inl e \<Rightarrow> Inl e
      | Inr g \<Rightarrow>
          (case globSync rt pattern globOptions (files w) of
             Inl e \<Rightarrow> Inl e
           | Inr found \<Rightarrow>
               collect_files rt globOptions w patterns
                 (fold (\<lambda>file acc. if file \<in> set acc then acc else acc @ [file]) found allFilePaths)))"

definition read_one :: "world \<Rightarrow> string \<Rightarrow> string" where
  "read_one w filePath =
     (case readFileSync filePath w of
        Inr text \<Rightarrow> ''--- '' @ filePath @ '' ---'' @ newline @ text @ newline @ newline
      | Inl e \<Rightarrow>
          ''--- Error reading '' @ filePath @ '': '' @ e_message e @ '' ---'' @ newline @ newline)"

definition readManyFilesJs_try ::
    "runtime \<Rightarrow> jsval \<Rightarrow> jsval \<Rightarrow> jsval \<Rightarrow> jsval \<Rightarrow> world \<Rightarrow> error + string" where
  "readManyFilesJs_try rt paths exclude include useDefaultExcludes w =
     (let defaultExcludes =
            (if truthy useDefaultExcludes
             then map JStr [''node_modules/**'', ''.git/**'', ''dist/**'', ''build/**'',
                            ''temp/**'', ''*.log'', ''*.tmp'', ''*.bak'']
             else [])
      in case spread ''exclude'' exclude of
           Inl e \<Rightarrow> Inl e
         | Inr excl \<Rightarrow>
             (let globOptions = \<lparr>g_cwd = None, g_absolute = True, g_nodir = True,
                                 g_ignore = defaultExcludes @ excl\<rparr>
              in case spread ''paths'' paths of
                   Inl e \<Rightarrow> Inl e
                 | Inr ps \<Rightarrow>
                     (case spread ''include'' include of
                        Inl e \<Rightarrow> Inl e
                      | Inr incl \<Rightarrow>
                          (case collect_files rt globOptions w (ps @ incl) [] of
                             Inl e \<Rightarrow> Inl e
                           | Inr allFilePaths \<Rightarrow>
                               if length allFilePaths = 0 then
                                 Inr ''No files found matching the provided patterns.''
                               else Inr (concat (map (read_one w) allFilePaths))))))"

text \<open>
  \<^verbatim>\<open>readManyFilesJs(paths, exclude = [], include = [], recursive = true,
  useDefaultExcludes = true)\<close>; \<^verbatim>\<open>recursive\<close> is never read.
\<close>

definition readManyFilesJs ::
    "runtime \<Rightarrow> jsval \<Rightarrow> jsval \<Rightarrow> jsval \<Rightarrow> jsval \<Rightarrow> jsval \<Rightarrow> world \<Rightarrow> string" where
  "readManyFilesJs rt paths exclude include recursive useDefaultExcludes w =
     (case readManyFilesJs_try rt paths
             (if exclude = JUndefined then JArr [] else exclude)
             (if include = JUndefined then JArr [] else include)
             (if useDefaultExcludes = JUndefined then JBool True else useDefaultExcludes) w of
        Inr text \<Rightarrow> text
      | Inl e \<Rightarrow> ''Error in readManyFiles: '' @ e_message e)"

section \<open>tools.js: the memory store\<close>

definition MEMORY_FILE_PATH :: "runtime \<Rightarrow> string" where
  "MEMORY_FILE_PATH rt = path_join (cwd rt) ''llm_memory.json''"

text \<open>
  \<^verbatim>\<open>Map.prototype.set\<close>: a key already present keeps its place and takes the new value;
  a new key goes to the end.
\<close>

fun Map_set :: "string \<Rightarrow> jsval \<Rightarrow> (string \<times> jsval) list \<Rightarrow> (string \<times> jsval) list" where
  "Map_set k v [] = [(k, v)]"
| "Map_set k v ((k', v') # m) = (if k' = k then (k, v) # m else (k', v') # Map_set k v m)"

text \<open>
  \<^verbatim>\<open>Object.entries\<close>: the own properties of an object, the indexed elements of an
  array or of a string, nothing for a number or a boolean, and a \<^verbatim>\<open>TypeError\<close> for
  \<^verbatim>\<open>null\<close> and \<^verbatim>\<open>undefined\<close>.
\<close>

definition Object_entries :: "jsval \<Rightarrow> error + (string \<times> jsval) list" where
  "Object_entries v =
     (case v of
        JObj kvs \<Rightarrow> Inr kvs
      | JArr xs \<Rightarrow> Inr (zip (map string_of_nat [0..<length xs]) xs)
      | JStr s \<Rightarrow> Inr (zip (map string_of_nat [0..<length s]) (map (\<lambda>c. JStr [c]) s))
      | JBool b \<Rightarrow> Inr []
      | JNum n \<Rightarrow> Inr []
      | _ \<Rightarrow> Inl (TypeError ''Cannot convert undefined or null to object''))"

text \<open>
  The body of the \<^verbatim>\<open>try\<close> of \<^verbatim>\<open>loadMemoryFromFile\<close>: \<open>Inr None\<close> when the
  \<^verbatim>\<open>if\<close> is not entered and control falls through to the final \<^verbatim>\<open>return new Map()\<close>.
\<close>

definition loadMemoryFromFile_try ::
    "runtime \<Rightarrow> world \<Rightarrow> error + (string \<times> jsval) list option" where
  "loadMemoryFromFile_try rt w =
     (if existsSync (MEMORY_FILE_PATH rt) w then
        (case readFileSync (MEMORY_FILE_PATH rt) w of
           Inl e \<Rightarrow> Inl e
         | Inr data \<Rightarrow>
             (case JSON_parse rt data of
                Inl e \<Rightarrow> Inl e
              | Inr parsed \<Rightarrow>
                  (case Object_entries parsed of
                     Inl e \<Rightarrow> Inl e
                   | Inr entries \<Rightarrow> Inr (Some (fold (\<lambda>(k, v). Map_set k v) entries [])))))
      else Inr None)"

definition loadMemoryFromFile :: "runtime \<Rightarrow> world \<Rightarrow> (string \<times> jsval) list \<times> world" where
  "loadMemoryFromFile rt w =
     (case loadMemoryFromFile_try rt w of
        Inr (Some m) \<Rightarrow> (m, w)
      | Inr None \<Rightarrow> ([], w)
      | Inl e \<Rightarrow> ([], console_error (''Error loading memory from file: '' @ e_message e) w))"

text \<open>
  \<^verbatim>\<open>saveMemoryToFile(store)\<close>: the whole store is serialised and written; an error is
  caught, written to the error console, and the function returns nothing either way.
\<close>

definition saveMemoryToFile :: "runtime \<Rightarrow> (string \<times> jsval) list \<Rightarrow> world \<Rightarrow> world" where
  "saveMemoryToFile rt store w =
     (case writeFileSync (MEMORY_FILE_PATH rt) (JSON_stringify rt (JObj store)) w of
        (None, w') \<Rightarrow> w'
      | (Some e, w') \<Rightarrow> console_error (''Error saving memory to file: '' @ e_message e) w')"

text \<open>\<^verbatim>\<open>new Date().toISOString()\<close>.\<close>

definition Date_toISOString :: "world \<Rightarrow> string \<times> world" where
  "Date_toISOString w = (clock w (ticks w), w\<lparr>ticks := Suc (ticks w)\<rparr>)"

text \<open>\<^verbatim>\<open>saveMemoryJs(fact)\<close>, with the parameter written \<open>fct\<close>.\<close>

definition saveMemoryJs :: "runtime \<Rightarrow> jsval \<Rightarrow> world \<Rightarrow> string \<times> world" where
  "saveMemoryJs rt fct w =
     (let (timestamp, w1) = Date_toISOString w;
          key = ''fact_'' @ timestamp;
          w2 = w1\<lparr>memoryStore := Map_set key fct (memoryStore w1)\<rparr>;
          w3 = saveMemoryToFile rt (memoryStore w2) w2
      in (''Fact saved to memory with key: '' @ key @ ''. Total facts: '' @
          string_of_nat (length (memoryStore w3)), w3))"

text \<open>
  \<^verbatim>\<open>retrieveMemoryJs(key)\<close>. The keys of the store are strings, so \<^verbatim>\<open>has\<close> fails on
  any other value.
\<close>

definition retrieveMemoryJs :: "jsval \<Rightarrow> world \<Rightarrow> string" where
  "retrieveMemoryJs key w =
     (case key of
        JStr k \<Rightarrow>
          (case map_of (memoryStore w) k of
             Some v \<Rightarrow> ''Retrieved fact for key '' @ quoted k @ '': '' @ js_String v
           | None \<Rightarrow> ''No fact found for key: '' @ k)
      | _ \<Rightarrow> ''No fact found for key: '' @ js_String key)"

definition listAllMemoryJs :: "world \<Rightarrow> string" where
  "listAllMemoryJs w =
     (if length (memoryStore w) = 0 then ''No facts currently stored in memory.''
      else ''Stored facts:'' @ newline @
           concat (map (\<lambda>(k, v). ''- '' @ k @ '': '' @ js_String v @ newline) (memoryStore w)))"

section \<open>main.js: the tool registry\<close>

text \<open>The functions that \<^verbatim>\<open>tools.js\<close> declares with \<^verbatim>\<open>export function\<close>.\<close>

datatype handler =
    ReadFileJs
  | ListDirectoryJs
  | WriteFileJs
  | SearchFileContentJs
  | GlobJs
  | ReadManyFilesJs
  | SaveMemoryJs
  | RetrieveMemoryJs
  | ListAllMemoryJs

definition tools_exports :: "(string \<times> handler) list" where
  "tools_exports =
     [(''readFileJs'', ReadFileJs), (''listDirectoryJs'', ListDirectoryJs),
      (''writeFileJs'', WriteFileJs), (''searchFileContentJs'', SearchFileContentJs),
      (''globJs'', GlobJs), (''readManyFilesJs'', ReadManyFilesJs),
      (''saveMemoryJs'', SaveMemoryJs), (''retrieveMemoryJs'', RetrieveMemoryJs),
      (''listAllMemoryJs'', ListAllMemoryJs)]"

text \<open>The names that \<^verbatim>\<open>main.js\<close> imports from \<^verbatim>\<open>./tools.js\<close> (lines 6 to 15).\<close>

definition main_imports :: "string list" where
  "main_imports =
     [''globJs'', ''listDirectoryJs'', ''readFileJs'', ''readManyFilesJs'',
      ''searchFileContentJs'', ''saveMemoryJs'', ''listAllMemoryJs'', ''searchMemoryJs'']"

text \<open>
  The value of an imported name inside \<^verbatim>\<open>main.js\<close>. A name that \<^verbatim>\<open>tools.js\<close> does
  not export has no function behind it: this model reads it as \<^verbatim>\<open>undefined\<close>, which is
  what a loader that compiles the modules to CommonJS yields. (Node's native module
  loader is stricter and rejects such an import when it links \<^verbatim>\<open>main.js\<close>, before any
  statement of the program runs.)
\<close>

definition imported :: "string \<Rightarrow> handler option" where
  "imported ident = (if ident \<in> set main_imports then map_of tools_exports ident else None)"

text \<open>The object literal \<^verbatim>\<open>availableFunctions\<close>: tool name and the identifier bound to it.\<close>

definition availableFunctions_literal :: "(string \<times> string) list" where
  "availableFunctions_literal =
     [(''read_file'', ''readFileJs''), (''list_directory'', ''listDirectoryJs''),
      (''search_file_content'', ''searchFileContentJs''), (''glob'', ''globJs''),
      (''read_many_files'', ''readManyFilesJs''), (''save_memory'', ''saveMemoryJs''),
      (''search_memory'', ''searchMemoryJs''), (''list_all_memory'', ''listAllMemoryJs'')]"

text \<open>The property names that a plain object inherits from \<^verbatim>\<open>Object.prototype\<close>.\<close>

definition Object_prototype_members :: "string list" where
  "Object_prototype_members =
     [''constructor'', ''__defineGetter__'', ''__defineSetter__'', ''hasOwnProperty'',
      ''__lookupGetter__'', ''__lookupSetter__'', ''isPrototypeOf'', ''propertyIsEnumerable'',
      ''toString'', ''valueOf'', ''__proto__'', ''toLocaleString'']"

text \<open>
  The result of \<^verbatim>\<open>availableFunctions[functionName]\<close>: one of the module's handlers, a
  member inherited from \<^verbatim>\<open>Object.prototype\<close> (truthy as well), or \<^verbatim>\<open>undefined\<close>.
\<close>

datatype resolved = Handler handler | Inherited string | Undefined

definition availableFunctions :: "string \<Rightarrow> resolved" where
  "availableFunctions functionName =
     (case map_of availableFunctions_literal functionName of
        Some ident \<Rightarrow> (case imported ident of Some h \<Rightarrow> Handler h | None \<Rightarrow> Undefined)
      | None \<Rightarrow>
          if functionName \<in> set Object_prototype_members then Inherited functionName
          else Undefined)"

section \<open>main.js: the dispatch loop\<close>

text \<open>
  \<^verbatim>\<open>functionToCall(functionArgs)\<close> (line 309): the handler is called with one argument,
  the whole arguments object of the request; its further parameters are \<^verbatim>\<open>undefined\<close>.
  \<open>Inl\<close> is an exception that leaves the handler.
\<close>

fun call_handler :: "runtime \<Rightarrow> handler \<Rightarrow> jsval \<Rightarrow> world \<Rightarrow> (error + jsval) \<times> world" where
  "call_handler rt ReadFileJs functionArgs w =
     (case readFileJs functionArgs w of
        Inl e \<Rightarrow> (Inl e, w)
      | Inr text \<Rightarrow> (Inr (JStr text), w))"
| "call_handler rt ListDirectoryJs functionArgs w =
     (case listDirectoryJs functionArgs w of
        Inl e \<Rightarrow> (Inl e, w)
      | Inr text \<Rightarrow> (Inr (JStr text), w))"
| "call_handler rt WriteFileJs functionArgs w =
     (case writeFileJs functionArgs JUndefined w of
        (Inl e, w') \<Rightarrow> (Inl e, w')
      | (Inr text, w') \<Rightarrow> (Inr (JStr text), w'))"
| "call_handler rt SearchFileContentJs functionArgs w =
     (Inr (JStr (searchFileContentJs rt functionArgs JUndefined JUndefined w)), w)"
| "call_handler rt GlobJs functionArgs w =
     (Inr (JStr (globJs rt functionArgs JUndefined w)), w)"
| "call_handler rt ReadManyFilesJs functionArgs w =
     (Inr (JStr (readManyFilesJs rt functionArgs JUndefined JUndefined JUndefined JUndefined w)), w)"
| "call_handler rt SaveMemoryJs functionArgs w =
     (case saveMemoryJs rt functionArgs w of (text, w') \<Rightarrow> (Inr (JStr text), w'))"
| "call_handler rt RetrieveMemoryJs functionArgs w =
     (Inr (JStr (retrieveMemoryJs functionArgs w)), w)"
| "call_handler rt ListAllMemoryJs functionArgs w =
     (Inr (JStr (listAllMemoryJs w)), w)"

text \<open>The tool-role message pushed at the end of the loop body (lines 368 to 373).\<close>

definition tool_message :: "tool_call \<Rightarrow> jsval \<Rightarrow> message" where
  "tool_message toolCall toolOutput =
     \<lparr>role = ''tool'', content = toolOutput, tool_calls = None,
      tool_call_id = Some (call_id toolCall), name = Some (fn_name toolCall)\<rparr>"

text \<open>
  The line that the loop writes to the error console for an unknown tool starts with a
  Korean phrase; these are its bytes in UTF-8.
\<close>

definition unknown_tool_log :: string where
  "unknown_tool_log =
     [CHR 0x20, CHR 0x20, CHR 0x5B, CHR 0xEC, CHR 0x98, CHR 0xA4, CHR 0xEB, CHR 0xA5, CHR 0x98,
      CHR 0x5D, CHR 0x20, CHR 0xEC, CHR 0x95, CHR 0x8C, CHR 0x20, CHR 0xEC, CHR 0x88, CHR 0x98,
      CHR 0x20, CHR 0xEC, CHR 0x97, CHR 0x86, CHR 0xEB, CHR 0x8A, CHR 0x94, CHR 0x20, CHR 0xEB,
      CHR 0x8F, CHR 0x84, CHR 0xEA, CHR 0xB5, CHR 0xAC, CHR 0x3A, CHR 0x20]"

text \<open>
  The call of line 309 when the lookup found a member of \<^verbatim>\<open>Object.prototype\<close>. The
  call is a plain function call in module code, which is strict, so the member runs with
  \<^verbatim>\<open>this\<close> undefined. \<^verbatim>\<open>Object.prototype.toString\<close> then returns
  \<^verbatim>\<open>[object Undefined]\<close> whatever its argument. The property \<^verbatim>\<open>__proto__\<close> reads as
  the prototype object itself, which is truthy and not a function, so calling it throws a
  \<^verbatim>\<open>TypeError\<close>. The other members are left to the runtime.
\<close>

definition call_inherited :: "runtime \<Rightarrow> string \<Rightarrow> jsval \<Rightarrow> error + jsval" where
  "call_inherited rt member functionArgs =
     (if member = ''toString'' then Inr (JStr ''[object Undefined]'')
      else if member = ''__proto__'' then Inl (TypeError ''functionToCall is not a function'')
      else inherited_call rt member functionArgs)"

text \<open>
  One pass of \<^verbatim>\<open>for (const toolCall of toolCalls)\<close> (lines 297 to 374). The result is
  the exception that left the body, if any, with \<open>workingMessages\<close> and the world as
  they are at that point. Nothing in the body catches an exception of the handler.
  Progress lines written with \<^verbatim>\<open>console.log\<close> are not modelled.
\<close>

definition executeToolCall ::
    "runtime \<Rightarrow> tool_call \<Rightarrow> world \<Rightarrow> message list \<Rightarrow> error option \<times> message list \<times> world" where
  "executeToolCall rt toolCall w workingMessages =
     (let functionName = fn_name toolCall;
          functionArgs = fn_arguments toolCall
      in case availableFunctions functionName of
           Handler functionToCall \<Rightarrow>
             (case call_handler rt functionToCall functionArgs w of
                (Inl e, w') \<Rightarrow> (Some e, workingMessages, w')
              | (Inr toolOutput, w') \<Rightarrow>
                  (None, workingMessages @ [tool_message toolCall toolOutput], w'))
         | Inherited member \<Rightarrow>
             (case call_inherited rt member functionArgs of
                Inl e \<Rightarrow> (Some e, workingMessages, w)
              | Inr toolOutput \<Rightarrow>
                  (None, workingMessages @ [tool_message toolCall toolOutput], w))
         | Undefined \<Rightarrow>
             (None,
              workingMessages @
                [tool_message toolCall
                   (JStr (''Error: Tool '' @ quoted functionName @ '' not found.''))],
              console_error (unknown_tool_log @ functionName) w))"

fun forToolCalls ::
    "runtime \<Rightarrow> tool_call list \<Rightarrow> world \<Rightarrow> message list \<Rightarrow> error option \<times> message list \<times> world" where
  "forToolCalls rt [] w workingMessages = (None, workingMessages, w)"
| "forToolCalls rt (toolCall # toolCalls) w workingMessages =
     (case executeToolCall rt toolCall w workingMessages of
        (Some e, workingMessages', w') \<Rightarrow> (Some e, workingMessages', w')
      | (None, workingMessages', w') \<Rightarrow> forToolCalls rt toolCalls w' workingMessages')"

text \<open>
  \<^verbatim>\<open>processChatWithTools(currentMessages)\<close>. The \<^verbatim>\<open>while (true)\<close> loop runs as long
  as the backend keeps requesting tools, so the model counts the requests to the backend:
  \<open>None\<close> says that the given number of requests did not end the loop. \<open>Some (Inl e, w)\<close>
  is the rejection of the promise with \<open>e\<close>, \<open>Some (Inr ms, w)\<close> the returned transcript.
\<close>

fun processChatWithTools ::
    "nat \<Rightarrow> runtime \<Rightarrow> message list \<Rightarrow> world \<Rightarrow> ((error + message list) \<times> world) option" where
  "processChatWithTools 0 rt workingMessages w = None"
| "processChatWithTools (Suc n) rt workingMessages w =
     (case ollama_chat rt workingMessages of
        Inl e \<Rightarrow> Some (Inl e, w)
      | Inr assistantMessage \<Rightarrow>
          (case tool_calls assistantMessage of
             None \<Rightarrow> Some (Inr (workingMessages @ [assistantMessage]), w)
           | Some [] \<Rightarrow> Some (Inr (workingMessages @ [assistantMessage]), w)
           | Some (toolCall # toolCalls) \<Rightarrow>
               (case forToolCalls rt (toolCall # toolCalls) w (workingMessages @ [assistantMessage]) of
                  (Some e, workingMessages', w') \<Rightarrow> Some (Inl e, w')
                | (None, workingMessages', w') \<Rightarrow> processChatWithTools n rt workingMessages' w')))"

section \<open>main.js: the session\<close>

text \<open>The transcript at the start of the process: the system directive alone.\<close>

definition system_directive :: "runtime \<Rightarrow> message" where
  "system_directive rt =
     \<lparr>role = ''system'',
      content = JStr (''You are a helpful assistant. The user's current working directory is '' @
                      quoted (cwd rt) @
                      ''. When you use tools that require a path, use this path as the default unless the user specifies a different one.''),
      tool_calls = None, tool_call_id = None, name = None\<rparr>"

definition initial_messages :: "runtime \<Rightarrow> message list" where
  "initial_messages rt = [system_directive rt]"

definition user_message :: "string \<Rightarrow> message" where
  "user_message userQuery =
     \<lparr>role = ''user'', content = JStr userQuery, tool_calls = None, tool_call_id = None,
      name = None\<rparr>"

text \<open>\<^verbatim>\<open>toLowerCase\<close> on the letters of ASCII, which decide the comparison with \<^verbatim>\<open>exit\<close>.\<close>

definition toLowerCase :: "string \<Rightarrow> string" where
  "toLowerCase s =
     map (\<lambda>c. case map_of (zip ''ABCDEFGHIJKLMNOPQRSTUVWXYZ'' ''abcdefghijklmnopqrstuvwxyz'') c of
                 Some l \<Rightarrow> l
               | None \<Rightarrow> c) s"

text \<open>The error line of the \<^verbatim>\<open>catch\<close> in \<^verbatim>\<open>askQuestion\<close> starts with these bytes.\<close>

definition failure_log :: string where
  "failure_log =
     [CHR 0x0A, CHR 0xEC, CHR 0x98, CHR 0xA4, CHR 0xEB, CHR 0xA5, CHR 0x98, CHR 0x20, CHR 0xEB,
      CHR 0xB0, CHR 0x9C, CHR 0xEC, CHR 0x83, CHR 0x9D, CHR 0x3A, CHR 0x20]"

text \<open>
  \<^verbatim>\<open>askQuestion\<close>, over the lines the user types. Each line other than \<^verbatim>\<open>exit\<close> is
  pushed to the global \<open>messages\<close>; a returned transcript replaces \<open>messages\<close>, a
  rejection leaves it as it is. The result is \<open>messages\<close> when the input ends or the user
  types \<^verbatim>\<open>exit\<close> (the export of the history then reads it and is not modelled).
\<close>

fun askQuestion ::
    "nat \<Rightarrow> runtime \<Rightarrow> string list \<Rightarrow> message list \<Rightarrow> world \<Rightarrow> (message list \<times> world) option" where
  "askQuestion fuel rt [] messages w = Some (messages, w)"
| "askQuestion fuel rt (userQuery # queries) messages w =
     (if toLowerCase userQuery = ''exit'' then Some (messages, w)
      else
        (case processChatWithTools fuel rt (messages @ [user_message userQuery]) w of
           None \<Rightarrow> None
         | Some (Inl e, w') \<Rightarrow>
             askQuestion fuel rt queries (messages @ [user_message userQuery])
               (console_error (failure_log @ e_message e) w')
         | Some (Inr updatedMessages, w') \<Rightarrow> askQuestion fuel rt queries updatedMessages w'))"

section \<open>Concrete runs\<close>

text \<open>
  A small runtime and a small world on which the functions above are evaluated. The
  working directory is \<^verbatim>\<open>/home/user\<close>. The stand-in for \<^verbatim>\<open>JSON.parse\<close> accepts the
  empty object only; the stand-in for \<^verbatim>\<open>JSON.stringify(v, null, 2)\<close> prints an
  object whose values are strings that need no escaping, one property to a line with an
  indentation of two spaces. No file matches a glob, no regular expression matches, and
  the members of \<^verbatim>\<open>Object.prototype\<close> that are left to the runtime throw when called
  without a receiver.
\<close>

definition example_stringify :: "jsval \<Rightarrow> string" where
  "example_stringify v =
     (case v of
        JObj [] \<Rightarrow> ''{}''
      | JObj (kv # kvs) \<Rightarrow>
          ''{'' @ newline @
          join ('','' @ newline)
            (map (\<lambda>(k, x). ''  '' @ [CHR 0x22] @ k @ [CHR 0x22] @ '': '' @
                            [CHR 0x22] @ js_String x @ [CHR 0x22]) (kv # kvs)) @
          newline @ ''}''
      | _ \<Rightarrow> js_String v)"

definition example_runtime :: "(message list \<Rightarrow> error + message) \<Rightarrow> runtime" where
  "example_runtime chat =
     \<lparr>cwd = ''/home/user'',
      JSON_parse = (\<lambda>s. if s = ''{}'' then Inr (JObj [])
                         else Inl (SyntaxError ''Unexpected token in JSON at position 1'')),
      JSON_stringify = example_stringify,
      globSync = (\<lambda>pattern opts fs. Inr []),
      regex_error = (\<lambda>pattern. None),
      regex_test = (\<lambda>pattern lastIndex line. None),
      inherited_call = (\<lambda>member args. Inl (TypeError ''Cannot convert undefined or null to object'')),
      ollama_chat = chat\<rparr>"

text \<open>
  A backend that answers from a script: its k-th reply goes to a transcript that holds
  k assistant messages already; past the script the request fails.
\<close>

definition scripted_chat :: "message list \<Rightarrow> message list \<Rightarrow> error + message" where
  "scripted_chat replies ms =
     (let k = length (filter (\<lambda>m. role m = ''assistant'') ms)
      in if k < length replies then Inr (replies ! k) else Inl (JsError ''fetch failed''))"

definition assistant_requests :: "tool_call list \<Rightarrow> message" where
  "assistant_requests tcs =
     \<lparr>role = ''assistant'', content = JStr [], tool_calls = Some tcs, tool_call_id = None,
      name = None\<rparr>"

definition assistant_says :: "string \<Rightarrow> message" where
  "assistant_says text =
     \<lparr>role = ''assistant'', content = JStr text, tool_calls = None, tool_call_id = None,
      name = None\<rparr>"

text \<open>
  The world of the scenario: \<^verbatim>\<open>/tmp/notes.txt\<close> holds \<^verbatim>\<open>hello\<close>, the memory store is
  empty, there is no backing file, and every write is allowed.
\<close>

definition example_world :: world where
  "example_world =
     \<lparr>files = [''/tmp/notes.txt'' \<mapsto> FileNode (Inr ''hello''),
               ''/tmp'' \<mapsto> DirNode (Inr [''notes.txt''])],
      write_error = (\<lambda>p. None),
      write_fault = (\<lambda>p. None),
      memoryStore = [],
      clock = (\<lambda>n. if n = 0 then ''2024-01-01T00:00:00.000Z'' else ''2024-01-01T00:00:01.000Z''),
      ticks = 0,
      stderr = []\<rparr>"

text \<open>The same world on a file system mounted read-only.\<close>

definition readonly_world :: world where
  "readonly_world =
     example_world\<lparr>write_error :=
       (\<lambda>p. Some (SystemError (''EROFS: read-only file system, open '' @ quoted p)))\<rparr>"

text \<open>
  The same world on a full disk, with a backing file from an earlier run: the file can be
  opened for writing and nothing can be written to it.
\<close>

definition full_disk_world :: world where
  "full_disk_world =
     example_world\<lparr>files :=
         (files example_world)(''/home/user/llm_memory.json'' \<mapsto> FileNode (Inr ''{}'')),
       write_fault := (\<lambda>p. Some (0, SystemError ''ENOSPC: no space left on device, write''))\<rparr>"

text \<open>The same world with a backing file that is not JSON.\<close>

definition malformed_world :: world where
  "malformed_world =
     example_world\<lparr>files :=
       (files example_world)(''/home/user/llm_memory.json'' \<mapsto> FileNode (Inr ''{not json''))\<rparr>"

definition read_notes_call :: tool_call where
  "read_notes_call =
     \<lparr>call_id = JStr ''call_1'', fn_name = ''read_file'',
      fn_arguments = JObj [(''absolute_path'', JStr ''/tmp/notes.txt'')]\<rparr>"

definition list_tmp_call :: tool_call where
  "list_tmp_call =
     \<lparr>call_id = JStr ''call_2'', fn_name = ''list_directory'',
      fn_arguments = JObj [(''absolute_path'', JStr ''/tmp'')]\<rparr>"

definition unknown_call :: tool_call where
  "unknown_call =
     \<lparr>call_id = JStr ''call_0'', fn_name = ''fly_to_moon'', fn_arguments = JObj []\<rparr>"

definition toString_call :: tool_call where
  "toString_call =
     \<lparr>call_id = JStr ''call_4'', fn_name = ''toString'', fn_arguments = JObj []\<rparr>"

definition proto_call :: tool_call where
  "proto_call =
     \<lparr>call_id = JStr ''call_5'', fn_name = ''__proto__'', fn_arguments = JObj []\<rparr>"

definition search_memory_call :: tool_call where
  "search_memory_call =
     \<lparr>call_id = JStr ''call_3'', fn_name = ''search_memory'',
      fn_arguments = JObj [(''query'', JStr ''blue'')]\<rparr>"

text \<open>The message that answers a request for a name the registry does not resolve.\<close>

definition not_found_message :: "tool_call \<Rightarrow> message" where
  "not_found_message toolCall =
     tool_message toolCall (JStr (''Error: Tool '' @ quoted (fn_name toolCall) @ '' not found.''))"

text \<open>
  The exception that \<^verbatim>\<open>path.isAbsolute\<close> throws when it is handed the arguments object
  of a request instead of a path.
\<close>

definition path_type_error :: error where
  "path_type_error =
     TypeError (''The '' @ [CHR 0x22] @ ''path'' @ [CHR 0x22] @
                '' argument must be of type string. Received an instance of Object'')"

text \<open>
  A session of three turns: a greeting, a request that makes the backend ask for an
  unknown tool, and \<^verbatim>\<open>Exit\<close>.
\<close>

definition session_script :: "message list" where
  "session_script =
     [assistant_says ''Hello.'', assistant_requests [unknown_call], assistant_says ''No such tool.'']"

section \<open>Facts about the memory store\<close>

lemma map_of_Map_set_same: "map_of (Map_set k v m) k = Some v"
  by (induction m) auto

lemma saveMemoryToFile_memoryStore: "memoryStore (saveMemoryToFile rt st w) = memoryStore w"
  by (auto simp: saveMemoryToFile_def writeFileSync_def console_error_def
      split: option.splits prod.splits)

text \<open>
  C7. Round trip through the memory store. For every fact string \<open>f\<close>, \<^verbatim>\<open>saveMemoryJs(f)\<close>
  returns the text that announces the key \<^verbatim>\<open>fact_<timestamp>\<close> and the size of the
  store; afterwards the store holds \<open>f\<close> itself under that key, and
  \<^verbatim>\<open>retrieveMemoryJs\<close> with that key returns its fixed prefix followed by \<open>f\<close>,
  character for character. This holds in every world, also when the write to the backing
  file fails and when the clock repeats a timestamp.
\<close>

theorem save_then_retrieve:
  "map_of (memoryStore (snd (saveMemoryJs rt (JStr f) w))) (''fact_'' @ clock w (ticks w)) =
     Some (JStr f) \<and>
   fst (saveMemoryJs rt (JStr f) w) =
     ''Fact saved to memory with key: '' @ (''fact_'' @ clock w (ticks w)) @ ''. Total facts: '' @
       string_of_nat (length (memoryStore (snd (saveMemoryJs rt (JStr f) w)))) \<and>
   retrieveMemoryJs (JStr (''fact_'' @ clock w (ticks w))) (snd (saveMemoryJs rt (JStr f) w)) =
     ''Retrieved fact for key '' @ quoted (''fact_'' @ clock w (ticks w)) @ '': '' @ f"
  by (simp add: saveMemoryJs_def Date_toISOString_def retrieveMemoryJs_def Let_def
      saveMemoryToFile_memoryStore map_of_Map_set_same)

theorem save_then_retrieve_witness:
  "fst (saveMemoryJs (example_runtime (scripted_chat [])) (JStr ''user likes blue'') example_world) =
     ''Fact saved to memory with key: fact_2024-01-01T00:00:00.000Z. Total facts: 1'' \<and>
   retrieveMemoryJs (JStr ''fact_2024-01-01T00:00:00.000Z'')
     (snd (saveMemoryJs (example_runtime (scripted_chat [])) (JStr ''user likes blue'') example_world)) =
     ''Retrieved fact for key 'fact_2024-01-01T00:00:00.000Z': user likes blue''"
proof -
  let ?r = "saveMemoryJs (example_runtime (scripted_chat [])) (JStr ''user likes blue'') example_world"
  have key: "clock example_world (ticks example_world) = ''2024-01-01T00:00:00.000Z''"
    by (simp add: example_world_def)
  have store: "memoryStore (snd ?r) = [(''fact_2024-01-01T00:00:00.000Z'', JStr ''user likes blue'')]"
    by (simp add: saveMemoryJs_def Date_toISOString_def Let_def saveMemoryToFile_memoryStore
        example_world_def)
  show ?thesis
    using save_then_retrieve [where rt = "example_runtime (scripted_chat [])"
        and f = "''user likes blue''" and w = example_world]
    by (simp add: key store quoted_def string_of_nat.simps)
qed

text \<open>
  C4, as the claim states it, fails. On a file system that refuses the write,
  \<^verbatim>\<open>saveMemoryJs\<close> returns the very text it returns when the write succeeds, and no backing
  file exists afterwards: the fact is not persisted and the returned text does not say so.
\<close>

theorem save_write_failure_counterexample:
  "fst (saveMemoryJs (example_runtime (scripted_chat [])) (JStr ''user likes blue'') readonly_world) =
     ''Fact saved to memory with key: fact_2024-01-01T00:00:00.000Z. Total facts: 1'' \<and>
   fst (saveMemoryJs (example_runtime (scripted_chat [])) (JStr ''user likes blue'') example_world) =
     ''Fact saved to memory with key: fact_2024-01-01T00:00:00.000Z. Total facts: 1'' \<and>
   files (snd (saveMemoryJs (example_runtime (scripted_chat [])) (JStr ''user likes blue'') readonly_world))
     (MEMORY_FILE_PATH (example_runtime (scripted_chat []))) = None"
  by (simp add: saveMemoryJs_def Date_toISOString_def saveMemoryToFile_def writeFileSync_def
      write_refused_def console_error_def readonly_world_def example_world_def example_runtime_def
      MEMORY_FILE_PATH_def path_join_def string_of_nat.simps Let_def)

text \<open>
  C4, amended. After \<^verbatim>\<open>saveMemoryJs(fact)\<close> returns, the fact is in the in-memory store
  under the new key, and the returned text announces that key and the size of the store,
  whatever became of the write. When the write to the backing file succeeds, the file
  holds the serialised store and nothing is written to the error console. When the write
  fails, the failure is written to the error console as one line
  \<^verbatim>\<open>Error saving memory to file: <message>\<close>, and the returned text does not mention it.
  Nothing is said about the content of the backing file after a failed write.
\<close>

theorem saveMemoryJs_outcome:
  "saveMemoryJs rt fct w = (out, w') \<Longrightarrow>
     out = ''Fact saved to memory with key: fact_'' @ clock w (ticks w) @ ''. Total facts: '' @
             string_of_nat (length (memoryStore w')) \<and>
     memoryStore w' = Map_set (''fact_'' @ clock w (ticks w)) fct (memoryStore w) \<and>
     (case write_failure (MEMORY_FILE_PATH rt) w of
        None \<Rightarrow>
          files w' (MEMORY_FILE_PATH rt) =
            Some (FileNode (Inr (JSON_stringify rt (JObj (memoryStore w'))))) \<and>
          stderr w' = stderr w
      | Some e \<Rightarrow>
          stderr w' = stderr w @ [''Error saving memory to file: '' @ e_message e])"
  by (auto simp: saveMemoryJs_def Date_toISOString_def saveMemoryToFile_def writeFileSync_def
      console_error_def write_refused_def write_failure_def split: option.splits fsnode.splits)

theorem saveMemoryJs_outcome_witness:
  "memoryStore (snd (saveMemoryJs (example_runtime (scripted_chat [])) (JStr ''user likes blue'')
                      readonly_world)) =
     [(''fact_2024-01-01T00:00:00.000Z'', JStr ''user likes blue'')] \<and>
   stderr (snd (saveMemoryJs (example_runtime (scripted_chat [])) (JStr ''user likes blue'')
                 readonly_world)) =
     [''Error saving memory to file: EROFS: read-only file system, open '' @
      quoted ''/home/user/llm_memory.json''] \<and>
   stderr (snd (saveMemoryJs (example_runtime (scripted_chat [])) (JStr ''user likes blue'')
                 full_disk_world)) =
     [''Error saving memory to file: ENOSPC: no space left on device, write''] \<and>
   files (snd (saveMemoryJs (example_runtime (scripted_chat [])) (JStr ''user likes blue'')
                full_disk_world)) ''/home/user/llm_memory.json'' = Some (FileNode (Inr []))"
proof -
  let ?rt = "example_runtime (scripted_chat [])"
  let ?r = "saveMemoryJs ?rt (JStr ''user likes blue'') readonly_world"
  let ?d = "saveMemoryJs ?rt (JStr ''user likes blue'') full_disk_world"
  have run: "?r = (fst ?r, snd ?r)"
    by simp
  have run_full: "?d = (fst ?d, snd ?d)"
    by simp
  have refused: "write_failure (MEMORY_FILE_PATH ?rt) readonly_world =
      Some (SystemError (''EROFS: read-only file system, open '' @ quoted ''/home/user/llm_memory.json''))"
    by (simp add: write_failure_def write_refused_def readonly_world_def example_world_def
        MEMORY_FILE_PATH_def example_runtime_def path_join_def)
  have fault: "write_failure (MEMORY_FILE_PATH ?rt) full_disk_world =
      Some (SystemError ''ENOSPC: no space left on device, write'')"
    by (simp add: write_failure_def write_refused_def full_disk_world_def example_world_def
        MEMORY_FILE_PATH_def example_runtime_def path_join_def)
  have start: "clock readonly_world (ticks readonly_world) = ''2024-01-01T00:00:00.000Z'' \<and>
      memoryStore readonly_world = [] \<and> stderr readonly_world = []"
    by (simp add: readonly_world_def example_world_def)
  have start_full: "stderr full_disk_world = []"
    by (simp add: full_disk_world_def example_world_def)
  have truncated: "files (snd ?d) ''/home/user/llm_memory.json'' = Some (FileNode (Inr []))"
    by (simp add: saveMemoryJs_def Date_toISOString_def saveMemoryToFile_def writeFileSync_def
        write_refused_def console_error_def full_disk_world_def example_world_def
        example_runtime_def MEMORY_FILE_PATH_def path_join_def Let_def)
  show ?thesis
    using saveMemoryJs_outcome [OF run] saveMemoryJs_outcome [OF run_full] truncated
    by (simp add: refused fault start start_full)
qed

text \<open>
  C9. Loading the memory store. When the backing file is absent, \<^verbatim>\<open>loadMemoryFromFile\<close>
  returns the empty mapping and changes nothing. When the file is there and readable but
  \<^verbatim>\<open>JSON.parse\<close> rejects its text, the function returns the empty mapping as well, and
  its only effect is one line on the error console, \<^verbatim>\<open>Error loading memory from file:\<close>
  followed by the message of the parser. In both cases the function returns: every
  exception of the body is caught.
\<close>

theorem loadMemoryFromFile_absent_or_malformed:
  "(\<not> existsSync (MEMORY_FILE_PATH rt) w \<longrightarrow> loadMemoryFromFile rt w = ([], w)) \<and>
   (readFileSync (MEMORY_FILE_PATH rt) w = Inr data \<and> JSON_parse rt data = Inl e \<longrightarrow>
      loadMemoryFromFile rt w =
        ([], console_error (''Error loading memory from file: '' @ e_message e) w))"
  by (auto simp: loadMemoryFromFile_def loadMemoryFromFile_try_def existsSync_def readFileSync_def
      split: option.splits)

theorem loadMemoryFromFile_witness:
  "loadMemoryFromFile (example_runtime (scripted_chat [])) example_world = ([], example_world) \<and>
   loadMemoryFromFile (example_runtime (scripted_chat [])) malformed_world =
     ([], malformed_world\<lparr>stderr :=
        [''Error loading memory from file: Unexpected token in JSON at position 1'']\<rparr>)"
proof -
  let ?rt = "example_runtime (scripted_chat [])"
  have p: "MEMORY_FILE_PATH ?rt = ''/home/user/llm_memory.json''"
    by (simp add: MEMORY_FILE_PATH_def example_runtime_def path_join_def)
  have a: "\<not> existsSync (MEMORY_FILE_PATH ?rt) example_world"
    by (simp add: p existsSync_def example_world_def)
  have r: "readFileSync (MEMORY_FILE_PATH ?rt) malformed_world = Inr ''{not json''"
    by (simp add: p readFileSync_def malformed_world_def)
  have j: "JSON_parse ?rt ''{not json'' = Inl (SyntaxError ''Unexpected token in JSON at position 1'')"
    by (simp add: example_runtime_def)
  show ?thesis
    using loadMemoryFromFile_absent_or_malformed [where rt = ?rt and w = example_world] a
      loadMemoryFromFile_absent_or_malformed [where rt = ?rt and w = malformed_world
        and data = "''{not json''" and e = "SyntaxError ''Unexpected token in JSON at position 1''"] r j
    by (simp add: console_error_def malformed_world_def example_world_def)
qed

section \<open>Facts about the file tools\<close>

text \<open>
  C10. \<^verbatim>\<open>searchFileContentJs\<close> never searches. For every pattern, include filter, search
  path and state of the file system its result is the text \<^verbatim>\<open>Error searching file
  content: glob is not defined\<close>: both branches of the file enumeration evaluate the
  identifier \<^verbatim>\<open>glob\<close>, which the module does not bind (it imports \<^verbatim>\<open>globSync\<close> only),
  and the \<^verbatim>\<open>catch\<close> of the function turns the \<^verbatim>\<open>ReferenceError\<close> into that text. No
  list of matches and no \<^verbatim>\<open>No matches found\<close> text is ever returned.
\<close>

theorem searchFileContentJs_always_fails:
  "searchFileContentJs rt pattern include searchPath w =
     ''Error searching file content: glob is not defined'' \<and>
   prefix ''Error searching file content:'' (searchFileContentJs rt pattern include searchPath w)"
  by (simp add: searchFileContentJs_def searchFileContentJs_try_def resolve_identifier_def
      tools_module_scope_def node_globals_def)

theorem searchFileContentJs_always_fails_witness:
  "searchFileContentJs (example_runtime (scripted_chat [])) (JStr ''hello'') (JStr ''*.txt'')
     (JStr ''/tmp'') example_world = ''Error searching file content: glob is not defined''"
  using searchFileContentJs_always_fails [of "example_runtime (scripted_chat [])"
      "JStr ''hello''" "JStr ''*.txt''" "JStr ''/tmp''" example_world]
  by simp

lemma readFileJs_object: "readFileJs (JObj kvs) w = Inl path_type_error"
  by (simp add: readFileJs_def path_isAbsolute_def path_type_error_def)

lemma listDirectoryJs_object: "listDirectoryJs (JObj kvs) w = Inl path_type_error"
  by (simp add: listDirectoryJs_def path_isAbsolute_def path_type_error_def)

section \<open>Facts about the registry\<close>

lemma resolve_read_file: "availableFunctions ''read_file'' = Handler ReadFileJs"
  by (simp add: availableFunctions_def availableFunctions_literal_def imported_def
      main_imports_def tools_exports_def)

lemma resolve_list_directory: "availableFunctions ''list_directory'' = Handler ListDirectoryJs"
  by (simp add: availableFunctions_def availableFunctions_literal_def imported_def
      main_imports_def tools_exports_def)

text \<open>
  C5. The memory store has no search operation. \<^verbatim>\<open>main.js\<close> imports a function
  \<^verbatim>\<open>searchMemoryJs\<close> from \<^verbatim>\<open>tools.js\<close> and registers it under the tool name
  \<^verbatim>\<open>search_memory\<close>, but \<^verbatim>\<open>tools.js\<close> exports no function of that name. The registry
  entry therefore resolves to nothing, and a request for \<^verbatim>\<open>search_memory\<close> with the
  query \<^verbatim>\<open>blue\<close> is answered, in every state of the store, with the text
  \<^verbatim>\<open>Error: Tool 'search_memory' not found.\<close> and not with the matching records.
\<close>

theorem search_memory_not_provided:
  "map_of tools_exports ''searchMemoryJs'' = None \<and>
   ''searchMemoryJs'' \<in> set main_imports \<and>
   map_of availableFunctions_literal ''search_memory'' = Some ''searchMemoryJs'' \<and>
   availableFunctions ''search_memory'' = Undefined \<and>
   executeToolCall rt search_memory_call w ms =
     (None, ms @ [tool_message search_memory_call (JStr ''Error: Tool 'search_memory' not found.'')],
      console_error (unknown_tool_log @ ''search_memory'') w)"
  by (simp add: tools_exports_def main_imports_def availableFunctions_literal_def
      availableFunctions_def imported_def executeToolCall_def search_memory_call_def quoted_def Let_def)

section \<open>Facts about the dispatch loop\<close>

lemma executeToolCall_prefix:
  "executeToolCall rt tc w ms = (r, ms', w') \<Longrightarrow> prefix ms ms'"
  by (auto simp: executeToolCall_def Let_def split: resolved.splits prod.splits sum.splits)

lemma executeToolCall_returns:
  "executeToolCall rt tc w ms = (None, ms', w') \<Longrightarrow> \<exists>out. ms' = ms @ [tool_message tc out]"
  by (auto simp: executeToolCall_def Let_def split: resolved.splits prod.splits sum.splits)

lemma forToolCalls_prefix:
  "forToolCalls rt tcs w ms = (r, ms', w') \<Longrightarrow> prefix ms ms'"
proof (induction tcs arbitrary: w ms)
  case Nil
  then show ?case by simp
next
  case (Cons tc tcs)
  obtain r1 ms1 w1 where step: "executeToolCall rt tc w ms = (r1, ms1, w1)"
    by (cases "executeToolCall rt tc w ms") auto
  then have p1: "prefix ms ms1"
    by (rule executeToolCall_prefix)
  show ?case
  proof (cases r1)
    case None
    with Cons.prems step have "forToolCalls rt tcs w1 ms1 = (r, ms', w')" by simp
    then have "prefix ms1 ms'" by (rule Cons.IH)
    with p1 show ?thesis by (rule prefix_order.trans)
  next
    case (Some e)
    with Cons.prems step have "ms' = ms1" by simp
    with p1 show ?thesis by simp
  qed
qed

text \<open>
  What the loop over the requests of a round does when no handler throws: it appends one
  tool-role message for each request, in the order of the requests, each carrying the id
  and the name of its request.
\<close>

lemma forToolCalls_completed:
  "forToolCalls rt tcs w ms = (None, ms', w') \<Longrightarrow>
   \<exists>outs. length outs = length tcs \<and> ms' = ms @ map (\<lambda>(tc, out). tool_message tc out) (zip tcs outs)"
proof (induction tcs arbitrary: w ms)
  case Nil
  then show ?case by simp
next
  case (Cons tc tcs)
  obtain r1 ms1 w1 where step: "executeToolCall rt tc w ms = (r1, ms1, w1)"
    by (cases "executeToolCall rt tc w ms") auto
  from Cons.prems step have none: "r1 = None"
    by (cases r1) auto
  with step obtain out where ms1: "ms1 = ms @ [tool_message tc out]"
    by (auto dest: executeToolCall_returns)
  from Cons.prems step none have "forToolCalls rt tcs w1 ms1 = (None, ms', w')"
    by simp
  then obtain outs where outs: "length outs = length tcs"
      "ms' = ms1 @ map (\<lambda>(tc, out). tool_message tc out) (zip tcs outs)"
    using Cons.IH by blast
  have "length (out # outs) = length (tc # tcs) \<and>
      ms' = ms @ map (\<lambda>(tc, out). tool_message tc out) (zip (tc # tcs) (out # outs))"
    using outs ms1 by simp
  then show ?case by blast
qed

lemma processChatWithTools_prefix:
  "processChatWithTools n rt ms w = Some (Inr out, w') \<Longrightarrow> prefix ms out"
proof (induction n arbitrary: ms w)
  case 0
  then show ?case by simp
next
  case (Suc n)
  show ?case
  proof (cases "ollama_chat rt ms")
    case (Inl e)
    with Suc.prems show ?thesis by simp
  next
    case (Inr am)
    show ?thesis
    proof (cases "tool_calls am")
      case None
      with Inr Suc.prems show ?thesis by auto
    next
      case (Some tcs)
      show ?thesis
      proof (cases tcs)
        case Nil
        with Some Inr Suc.prems show ?thesis by auto
      next
        case (Cons tc rest)
        obtain r ms1 w1 where loop: "forToolCalls rt (tc # rest) w (ms @ [am]) = (r, ms1, w1)"
          by (cases "forToolCalls rt (tc # rest) w (ms @ [am])") auto
        then have p1: "prefix (ms @ [am]) ms1" by (rule forToolCalls_prefix)
        show ?thesis
        proof (cases r)
          case None
          with Suc.prems Inr Some Cons loop
          have "processChatWithTools n rt ms1 w1 = Some (Inr out, w')" by simp
          then have "prefix ms1 out" by (rule Suc.IH)
          with p1 have "prefix (ms @ [am]) out" by (rule prefix_order.trans)
          then show ?thesis by (auto elim: append_prefixD)
        next
          case (Some e)
          with Suc.prems Inr \<open>tool_calls am = Some tcs\<close> Cons loop show ?thesis by simp
        qed
      qed
    qed
  qed
qed

lemma askQuestion_prefix:
  "askQuestion n rt qs ms w = Some (out, w') \<Longrightarrow> prefix ms out"
proof (induction qs arbitrary: ms w)
  case Nil
  then show ?case by simp
next
  case (Cons q qs)
  show ?case
  proof (cases "toLowerCase q = ''exit''")
    case True
    with Cons.prems show ?thesis by simp
  next
    case False
    show ?thesis
    proof (cases "processChatWithTools n rt (ms @ [user_message q]) w")
      case None
      with False Cons.prems show ?thesis by simp
    next
      case (Some res)
      obtain r w1 where res: "res = (r, w1)" by (cases res) auto
      show ?thesis
      proof (cases r)
        case (Inl e)
        with False Some res Cons.prems
        have "askQuestion n rt qs (ms @ [user_message q])
                (console_error (failure_log @ e_message e) w1) = Some (out, w')"
          by simp
        then have "prefix (ms @ [user_message q]) out" by (rule Cons.IH)
        then show ?thesis by (auto elim: append_prefixD)
      next
        case (Inr upd)
        with False Some res Cons.prems
        have "askQuestion n rt qs upd w1 = Some (out, w')" by simp
        then have p2: "prefix upd out" by (rule Cons.IH)
        from Some res Inr have "prefix (ms @ [user_message q]) upd"
          by (auto intro: processChatWithTools_prefix)
        with p2 have "prefix (ms @ [user_message q]) out" by (rule prefix_order.trans[rotated])
        then show ?thesis by (auto elim: append_prefixD)
      qed
    qed
  qed
qed

text \<open>
  C8. The transcript only grows. Whenever \<^verbatim>\<open>processChatWithTools\<close> returns a transcript,
  the transcript it was given is a prefix of it: no earlier message is changed, moved or
  dropped, and messages are added at the end only. The same holds for the global
  \<open>messages\<close> over a whole session, whatever the user types and whatever the backend
  answers; since the session starts from the system directive alone, the first message
  of \<open>messages\<close> is the system directive at every prompt.
\<close>

theorem transcript_only_grows:
  "(processChatWithTools n rt ms w = Some (Inr out, w') \<longrightarrow> prefix ms out) \<and>
   (askQuestion n rt queries msb wb = Some (outb, wb') \<longrightarrow> prefix msb outb) \<and>
   (askQuestion n rt queries (initial_messages rt) wc = Some (outc, wc') \<longrightarrow>
      outc \<noteq> [] \<and> hd outc = system_directive rt)"
proof (intro conjI impI)
  assume "processChatWithTools n rt ms w = Some (Inr out, w')"
  then show "prefix ms out" by (rule processChatWithTools_prefix)
next
  assume "askQuestion n rt queries msb wb = Some (outb, wb')"
  then show "prefix msb outb" by (rule askQuestion_prefix)
next
  assume a: "askQuestion n rt queries (initial_messages rt) wc = Some (outc, wc')"
  then have "prefix [system_directive rt] outc"
    unfolding initial_messages_def [symmetric] by (rule askQuestion_prefix)
  then show "outc \<noteq> []" by (auto simp: prefix_def)
next
  assume a: "askQuestion n rt queries (initial_messages rt) wc = Some (outc, wc')"
  then have "prefix [system_directive rt] outc"
    unfolding initial_messages_def [symmetric] by (rule askQuestion_prefix)
  then show "hd outc = system_directive rt" by (auto simp: prefix_def)
qed

theorem transcript_only_grows_witness:
  "processChatWithTools 2 (example_runtime (scripted_chat session_script))
     (initial_messages (example_runtime (scripted_chat session_script)) @ [user_message ''hi''])
     example_world =
     Some (Inr (initial_messages (example_runtime (scripted_chat session_script)) @
                [user_message ''hi'', assistant_says ''Hello.'']), example_world) \<and>
   prefix (initial_messages (example_runtime (scripted_chat session_script)) @ [user_message ''hi''])
     (initial_messages (example_runtime (scripted_chat session_script)) @
        [user_message ''hi'', assistant_says ''Hello.'']) \<and>
   askQuestion 2 (example_runtime (scripted_chat session_script)) [''hi'', ''fly'', ''Exit'', ''more'']
     (initial_messages (example_runtime (scripted_chat session_script))) example_world =
     Some (initial_messages (example_runtime (scripted_chat session_script)) @
             [user_message ''hi'', assistant_says ''Hello.'', user_message ''fly'',
              assistant_requests [unknown_call], not_found_message unknown_call,
              assistant_says ''No such tool.''],
           console_error (unknown_tool_log @ ''fly_to_moon'') example_world) \<and>
   hd (initial_messages (example_runtime (scripted_chat session_script)) @
             [user_message ''hi'', assistant_says ''Hello.'', user_message ''fly'',
              assistant_requests [unknown_call], not_found_message unknown_call,
              assistant_says ''No such tool.'']) =
     system_directive (example_runtime (scripted_chat session_script))"
proof -
  let ?rt = "example_runtime (scripted_chat session_script)"
  let ?out = "initial_messages ?rt @
             [user_message ''hi'', assistant_says ''Hello.'', user_message ''fly'',
              assistant_requests [unknown_call], not_found_message unknown_call,
              assistant_says ''No such tool.'']"
  have turn: "processChatWithTools 2 ?rt (initial_messages ?rt @ [user_message ''hi'']) example_world =
     Some (Inr (initial_messages ?rt @ [user_message ''hi'', assistant_says ''Hello.'']), example_world)"
    by (simp add: numeral_2_eq_2 example_runtime_def scripted_chat_def session_script_def
        initial_messages_def system_directive_def user_message_def assistant_says_def)
  have session: "askQuestion 2 ?rt [''hi'', ''fly'', ''Exit'', ''more''] (initial_messages ?rt) example_world =
     Some (?out, console_error (unknown_tool_log @ ''fly_to_moon'') example_world)"
    by (simp add: numeral_2_eq_2 example_runtime_def scripted_chat_def session_script_def
        initial_messages_def system_directive_def user_message_def assistant_says_def
        assistant_requests_def toLowerCase_def executeToolCall_def unknown_call_def
        availableFunctions_def availableFunctions_literal_def Object_prototype_members_def
        not_found_message_def tool_message_def Let_def)
  have grows: "prefix (initial_messages ?rt @ [user_message ''hi''])
      (initial_messages ?rt @ [user_message ''hi'', assistant_says ''Hello.''])"
    using transcript_only_grows [where n = 2 and rt = ?rt
        and ms = "initial_messages ?rt @ [user_message ''hi'']" and w = example_world
        and out = "initial_messages ?rt @ [user_message ''hi'', assistant_says ''Hello.'']"
        and w' = example_world] turn
    by blast
  have first: "hd ?out = system_directive ?rt"
    using transcript_only_grows [where n = 2 and rt = ?rt
        and queries = "[''hi'', ''fly'', ''Exit'', ''more'']" and wc = example_world
        and outc = ?out and wc' = "console_error (unknown_tool_log @ ''fly_to_moon'') example_world"]
      session
    by blast
  from turn grows session first show ?thesis by blast
qed

lemma executeToolCall_unknown:
  "availableFunctions (fn_name tc) = Undefined \<Longrightarrow>
   executeToolCall rt tc w ms =
     (None, ms @ [not_found_message tc], console_error (unknown_tool_log @ fn_name tc) w)"
  by (simp add: executeToolCall_def not_found_message_def Let_def)

lemma forToolCalls_unknown:
  "list_all (\<lambda>tc. availableFunctions (fn_name tc) = Undefined) tcs \<Longrightarrow>
   forToolCalls rt tcs w ms =
     (None, ms @ map not_found_message tcs,
      fold (\<lambda>tc. console_error (unknown_tool_log @ fn_name tc)) tcs w)"
  by (induction tcs arbitrary: w ms) (simp_all add: executeToolCall_unknown)

text \<open>
  Names that the lookup does not resolve. A request whose name gives \<^verbatim>\<open>undefined\<close> in
  \<^verbatim>\<open>availableFunctions[functionName]\<close> throws nothing: the loop appends exactly one
  tool-role message for it, with the id and the name of the request and the content
  \<^verbatim>\<open>Error: Tool '<name>' not found.\<close>, and writes one line to the error console. A
  round whose requests all name such tools ends with the next request to the backend,
  made with the transcript extended by the assistant message and one such message for
  each request, in order.
\<close>

theorem unknown_tool_reported:
  "(availableFunctions (fn_name toolCall) = Undefined \<longrightarrow>
      executeToolCall rt toolCall w ms =
        (None, ms @ [not_found_message toolCall],
         console_error (unknown_tool_log @ fn_name toolCall) w)) \<and>
   (ollama_chat rt ms = Inr am \<and> tool_calls am = Some tcs \<and> tcs \<noteq> [] \<and>
    list_all (\<lambda>tc. availableFunctions (fn_name tc) = Undefined) tcs \<longrightarrow>
      processChatWithTools (Suc n) rt ms w =
        processChatWithTools n rt (ms @ [am] @ map not_found_message tcs)
          (fold (\<lambda>tc. console_error (unknown_tool_log @ fn_name tc)) tcs w))"
proof (intro conjI impI)
  assume "availableFunctions (fn_name toolCall) = Undefined"
  then show "executeToolCall rt toolCall w ms =
        (None, ms @ [not_found_message toolCall],
         console_error (unknown_tool_log @ fn_name toolCall) w)"
    by (rule executeToolCall_unknown)
next
  assume a: "ollama_chat rt ms = Inr am \<and> tool_calls am = Some tcs \<and> tcs \<noteq> [] \<and>
    list_all (\<lambda>tc. availableFunctions (fn_name tc) = Undefined) tcs"
  then obtain tc rest where tcs: "tcs = tc # rest" by (cases tcs) auto
  from a have "forToolCalls rt tcs w (ms @ [am]) =
     (None, (ms @ [am]) @ map not_found_message tcs,
      fold (\<lambda>tc. console_error (unknown_tool_log @ fn_name tc)) tcs w)"
    by (intro forToolCalls_unknown) simp
  with a tcs show "processChatWithTools (Suc n) rt ms w =
        processChatWithTools n rt (ms @ [am] @ map not_found_message tcs)
          (fold (\<lambda>tc. console_error (unknown_tool_log @ fn_name tc)) tcs w)"
    by simp
qed

theorem unknown_tool_reported_witness:
  "executeToolCall (example_runtime (scripted_chat [])) unknown_call example_world [] =
     (None,
      [\<lparr>role = ''tool'', content = JStr ''Error: Tool 'fly_to_moon' not found.'',
        tool_calls = None, tool_call_id = Some (JStr ''call_0''), name = Some ''fly_to_moon''\<rparr>],
      example_world\<lparr>stderr := [unknown_tool_log @ ''fly_to_moon'']\<rparr>) \<and>
   processChatWithTools 2
     (example_runtime (scripted_chat [assistant_requests [unknown_call], assistant_says ''No such tool.'']))
     [user_message ''fly''] example_world =
   Some (Inr [user_message ''fly'', assistant_requests [unknown_call],
              not_found_message unknown_call, assistant_says ''No such tool.''],
         example_world\<lparr>stderr := [unknown_tool_log @ ''fly_to_moon'']\<rparr>)"
proof -
  let ?rt = "example_runtime (scripted_chat [assistant_requests [unknown_call], assistant_says ''No such tool.''])"
  let ?w1 = "example_world\<lparr>stderr := [unknown_tool_log @ ''fly_to_moon'']\<rparr>"
  have u: "availableFunctions (fn_name unknown_call) = Undefined"
    by (simp add: unknown_call_def availableFunctions_def availableFunctions_literal_def
        Object_prototype_members_def)
  have w1: "console_error (unknown_tool_log @ fn_name unknown_call) example_world = ?w1"
    by (simp add: console_error_def unknown_call_def example_world_def)
  have chat: "ollama_chat ?rt [user_message ''fly''] = Inr (assistant_requests [unknown_call])"
    by (simp add: example_runtime_def scripted_chat_def user_message_def)
  have tcs: "tool_calls (assistant_requests [unknown_call]) = Some [unknown_call]"
    by (simp add: assistant_requests_def)
  have first: "executeToolCall (example_runtime (scripted_chat [])) unknown_call example_world [] =
     (None, [] @ [not_found_message unknown_call],
         console_error (unknown_tool_log @ fn_name unknown_call) example_world)"
    using unknown_tool_reported [where rt = "example_runtime (scripted_chat [])" and ms = "[]"
        and w = example_world and toolCall = unknown_call] u
    by blast
  have msg: "not_found_message unknown_call =
      \<lparr>role = ''tool'', content = JStr ''Error: Tool 'fly_to_moon' not found.'',
        tool_calls = None, tool_call_id = Some (JStr ''call_0''), name = Some ''fly_to_moon''\<rparr>"
    by (simp add: not_found_message_def tool_message_def unknown_call_def quoted_def)
  have A: "executeToolCall (example_runtime (scripted_chat [])) unknown_call example_world [] =
     (None,
      [\<lparr>role = ''tool'', content = JStr ''Error: Tool 'fly_to_moon' not found.'',
        tool_calls = None, tool_call_id = Some (JStr ''call_0''), name = Some ''fly_to_moon''\<rparr>],
      ?w1)"
    using first by (simp only: w1 msg append_Nil)
  have step: "processChatWithTools (Suc (Suc 0)) ?rt [user_message ''fly''] example_world =
        processChatWithTools (Suc 0) ?rt
          ([user_message ''fly''] @ [assistant_requests [unknown_call]] @ map not_found_message [unknown_call])
          (fold (\<lambda>tc. console_error (unknown_tool_log @ fn_name tc)) [unknown_call] example_world)"
    using unknown_tool_reported [where rt = ?rt and ms = "[user_message ''fly'']"
        and am = "assistant_requests [unknown_call]" and tcs = "[unknown_call]" and n = "Suc 0"
        and w = example_world and toolCall = unknown_call] chat tcs u
    by simp
  have chat2: "ollama_chat ?rt [user_message ''fly'', assistant_requests [unknown_call],
        not_found_message unknown_call] = Inr (assistant_says ''No such tool.'')"
    by (simp add: example_runtime_def scripted_chat_def user_message_def assistant_requests_def
        not_found_message_def tool_message_def)
  have none: "tool_calls (assistant_says ''No such tool.'') = None"
    by (simp add: assistant_says_def)
  have last: "processChatWithTools (Suc 0) ?rt
       [user_message ''fly'', assistant_requests [unknown_call], not_found_message unknown_call] ?w1 =
     Some (Inr [user_message ''fly'', assistant_requests [unknown_call],
                not_found_message unknown_call, assistant_says ''No such tool.''], ?w1)"
    by (simp add: chat2 none)
  have B: "processChatWithTools 2 ?rt [user_message ''fly''] example_world =
     Some (Inr [user_message ''fly'', assistant_requests [unknown_call],
                not_found_message unknown_call, assistant_says ''No such tool.''], ?w1)"
    using step last by (simp add: numeral_2_eq_2 w1 del: processChatWithTools.simps)
  from A B show ?thesis by (rule conjI)
qed

text \<open>
  C6. Unknown tools whose names an object inherits. \<^verbatim>\<open>availableFunctions\<close> is a plain
  object literal, so the lookup \<^verbatim>\<open>availableFunctions[functionName]\<close> also finds the
  members of \<^verbatim>\<open>Object.prototype\<close>. The names \<^verbatim>\<open>toString\<close> and \<^verbatim>\<open>__proto__\<close> are
  not tools of the registry, yet the branch for unknown tools is not taken for them. A
  request for \<^verbatim>\<open>toString\<close> gets a tool-role message with the content
  \<^verbatim>\<open>[object Undefined]\<close>, which says nothing of a missing tool, and nothing is written
  to the error console. A request for \<^verbatim>\<open>__proto__\<close> throws a \<^verbatim>\<open>TypeError\<close>: no
  message is appended and \<^verbatim>\<open>processChatWithTools\<close> ends with the exception instead of
  asking the backend again.
\<close>

theorem inherited_name_not_reported:
  "map_of availableFunctions_literal ''toString'' = None \<and>
   availableFunctions ''toString'' = Inherited ''toString'' \<and>
   executeToolCall rt toString_call w ms =
     (None, ms @ [tool_message toString_call (JStr ''[object Undefined]'')], w) \<and>
   tool_message toString_call (JStr ''[object Undefined]'') \<noteq> not_found_message toString_call \<and>
   map_of availableFunctions_literal ''__proto__'' = None \<and>
   availableFunctions ''__proto__'' = Inherited ''__proto__'' \<and>
   executeToolCall rt proto_call w ms =
     (Some (TypeError ''functionToCall is not a function''), ms, w) \<and>
   processChatWithTools (Suc n)
     (example_runtime (scripted_chat [assistant_requests [proto_call], assistant_says ''Done.'']))
     [user_message ''go''] example_world =
     Some (Inl (TypeError ''functionToCall is not a function''), example_world)"
proof -
  let ?rt = "example_runtime (scripted_chat [assistant_requests [proto_call], assistant_says ''Done.''])"
  have own: "map_of availableFunctions_literal ''toString'' = None \<and>
      map_of availableFunctions_literal ''__proto__'' = None"
    by (simp add: availableFunctions_literal_def)
  have found: "availableFunctions ''toString'' = Inherited ''toString'' \<and>
      availableFunctions ''__proto__'' = Inherited ''__proto__''"
    by (simp add: availableFunctions_def availableFunctions_literal_def Object_prototype_members_def)
  have answered: "executeToolCall rt toString_call w ms =
      (None, ms @ [tool_message toString_call (JStr ''[object Undefined]'')], w)"
    by (simp add: executeToolCall_def toString_call_def found call_inherited_def Let_def)
  have differs: "tool_message toString_call (JStr ''[object Undefined]'') \<noteq>
      not_found_message toString_call"
    by (simp add: not_found_message_def tool_message_def)
  have thrown: "executeToolCall rt proto_call w ms =
      (Some (TypeError ''functionToCall is not a function''), ms, w)" for rt w ms
    by (simp add: executeToolCall_def proto_call_def found call_inherited_def Let_def)
  have chat: "ollama_chat ?rt [user_message ''go''] = Inr (assistant_requests [proto_call])"
    by (simp add: example_runtime_def scripted_chat_def user_message_def)
  have tcs: "tool_calls (assistant_requests [proto_call]) = Some [proto_call]"
    by (simp add: assistant_requests_def)
  have ends: "processChatWithTools (Suc n) ?rt [user_message ''go''] example_world =
      Some (Inl (TypeError ''functionToCall is not a function''), example_world)"
    by (simp add: chat tcs thrown)
  from own found answered differs thrown ends show ?thesis
    by blast
qed

lemma executeToolCall_read_notes:
  "executeToolCall rt read_notes_call w ms = (Some path_type_error, ms, w)"
  by (simp add: executeToolCall_def read_notes_call_def resolve_read_file readFileJs_object)

lemma executeToolCall_list_tmp:
  "executeToolCall rt list_tmp_call w ms = (Some path_type_error, ms, w)"
  by (simp add: executeToolCall_def list_tmp_call_def resolve_list_directory listDirectoryJs_object)

text \<open>
  C3. The scenario of the specification, run on the code. The transcript holds the system
  directive and the question about \<^verbatim>\<open>/tmp/notes.txt\<close>, the file holds \<^verbatim>\<open>hello\<close>, and the
  backend requests \<^verbatim>\<open>read_file\<close> with the arguments \<^verbatim>\<open>{absolute_path:
  "/tmp/notes.txt"}\<close>. The loop hands the whole arguments object to \<^verbatim>\<open>readFileJs\<close>, whose
  first statement \<^verbatim>\<open>path.isAbsolute(absolutePath)\<close> throws a \<^verbatim>\<open>TypeError\<close> on it. No
  tool-role message is appended and \<^verbatim>\<open>processChatWithTools\<close> ends with that exception.
  Called with the path itself, \<^verbatim>\<open>readFileJs\<close> returns \<^verbatim>\<open>hello\<close>.
\<close>

theorem read_file_scenario_throws:
  "processChatWithTools 2
     (example_runtime (scripted_chat [assistant_requests [read_notes_call],
                                      assistant_says ''The file says hello.'']))
     [system_directive (example_runtime (scripted_chat [])),
      user_message ''what's in /tmp/notes.txt?''] example_world =
     Some (Inl path_type_error, example_world) \<and>
   executeToolCall rt read_notes_call example_world ms = (Some path_type_error, ms, example_world) \<and>
   readFileJs (fn_arguments read_notes_call) example_world = Inl path_type_error \<and>
   readFileJs (JStr ''/tmp/notes.txt'') example_world = Inr ''hello''"
proof -
  let ?rt = "example_runtime (scripted_chat [assistant_requests [read_notes_call],
                                      assistant_says ''The file says hello.''])"
  let ?ms = "[system_directive (example_runtime (scripted_chat [])),
      user_message ''what's in /tmp/notes.txt?'']"
  have chat: "ollama_chat ?rt ?ms = Inr (assistant_requests [read_notes_call])"
    by (simp add: example_runtime_def scripted_chat_def user_message_def system_directive_def)
  have tcs: "tool_calls (assistant_requests [read_notes_call]) = Some [read_notes_call]"
    by (simp add: assistant_requests_def)
  have A: "processChatWithTools 2 ?rt ?ms example_world = Some (Inl path_type_error, example_world)"
    by (simp add: numeral_2_eq_2 chat tcs executeToolCall_read_notes)
  have C: "readFileJs (fn_arguments read_notes_call) example_world = Inl path_type_error"
    by (simp add: read_notes_call_def readFileJs_object)
  have D: "readFileJs (JStr ''/tmp/notes.txt'') example_world = Inr ''hello''"
    by (simp add: readFileJs_def path_isAbsolute_def existsSync_def lstat_isFile_def
        readFileSync_def example_world_def)
  from A executeToolCall_read_notes C D show ?thesis by simp
qed

text \<open>
  C2. An exception of a registered handler leaves the loop. \<^verbatim>\<open>readFileJs\<close> and
  \<^verbatim>\<open>listDirectoryJs\<close> throw on every arguments object, whatever its properties, and the
  loop has no \<^verbatim>\<open>try\<close> around the call: when the backend requests \<^verbatim>\<open>list_directory\<close>
  for \<^verbatim>\<open>/tmp\<close>, \<^verbatim>\<open>processChatWithTools\<close> ends with the \<^verbatim>\<open>TypeError\<close> instead of a
  tool-role message carrying its text.
\<close>

theorem handler_exception_leaves_loop:
  "call_handler rt ReadFileJs (JObj kvs) w = (Inl path_type_error, w) \<and>
   call_handler rt ListDirectoryJs (JObj kvs) w = (Inl path_type_error, w) \<and>
   availableFunctions ''list_directory'' = Handler ListDirectoryJs \<and>
   processChatWithTools (Suc n)
     (example_runtime (scripted_chat [assistant_requests [list_tmp_call]]))
     [user_message ''list /tmp''] example_world =
     Some (Inl path_type_error, example_world)"
proof -
  let ?rt = "example_runtime (scripted_chat [assistant_requests [list_tmp_call]])"
  have chat: "ollama_chat ?rt [user_message ''list /tmp''] = Inr (assistant_requests [list_tmp_call])"
    by (simp add: example_runtime_def scripted_chat_def user_message_def)
  have tcs: "tool_calls (assistant_requests [list_tmp_call]) = Some [list_tmp_call]"
    by (simp add: assistant_requests_def)
  have D: "processChatWithTools (Suc n) ?rt [user_message ''list /tmp''] example_world =
     Some (Inl path_type_error, example_world)"
    by (simp add: chat tcs executeToolCall_list_tmp)
  show ?thesis
    by (simp add: readFileJs_object listDirectoryJs_object resolve_list_directory D
        del: processChatWithTools.simps)
qed

text \<open>
  C1. A round that appends fewer tool-role messages than it has requests. The assistant
  message carries three requests: an unknown tool, \<^verbatim>\<open>read_file\<close> and
  \<^verbatim>\<open>list_directory\<close>. The loop appends the message for the first, the handler of the
  second throws, and the loop ends there: one tool-role message for three requests, and
  \<^verbatim>\<open>processChatWithTools\<close> ends with the exception without asking the backend again.
\<close>

theorem round_appends_fewer_messages:
  "forToolCalls rt [unknown_call, read_notes_call, list_tmp_call] w ms =
     (Some path_type_error, ms @ [not_found_message unknown_call],
      console_error (unknown_tool_log @ ''fly_to_moon'') w) \<and>
   processChatWithTools (Suc n)
     (example_runtime (scripted_chat [assistant_requests [unknown_call, read_notes_call, list_tmp_call],
                                      assistant_says ''Done.'']))
     [user_message ''go''] example_world =
     Some (Inl path_type_error, console_error (unknown_tool_log @ ''fly_to_moon'') example_world)"
proof -
  let ?rt = "example_runtime (scripted_chat [assistant_requests [unknown_call, read_notes_call, list_tmp_call],
                                      assistant_says ''Done.''])"
  have u: "executeToolCall rt unknown_call w ms =
      (None, ms @ [not_found_message unknown_call], console_error (unknown_tool_log @ ''fly_to_moon'') w)"
    for rt w ms
    by (simp add: executeToolCall_def unknown_call_def not_found_message_def availableFunctions_def
        availableFunctions_literal_def Object_prototype_members_def Let_def)
  have A: "forToolCalls rt [unknown_call, read_notes_call, list_tmp_call] w ms =
     (Some path_type_error, ms @ [not_found_message unknown_call],
      console_error (unknown_tool_log @ ''fly_to_moon'') w)" for rt w ms
    by (simp add: u executeToolCall_read_notes)
  have chat: "ollama_chat ?rt [user_message ''go''] =
      Inr (assistant_requests [unknown_call, read_notes_call, list_tmp_call])"
    by (simp add: example_runtime_def scripted_chat_def user_message_def)
  have tcs: "tool_calls (assistant_requests [unknown_call, read_notes_call, list_tmp_call]) =
      Some [unknown_call, read_notes_call, list_tmp_call]"
    by (simp add: assistant_requests_def)
  have B: "processChatWithTools (Suc n) ?rt [user_message ''go''] example_world =
     Some (Inl path_type_error, console_error (unknown_tool_log @ ''fly_to_moon'') example_world)"
    by (simp add: chat tcs A del: forToolCalls.simps)
  from A B show ?thesis by (rule conjI)
qed

end
